theory Spec2Isabelle
  imports Main
begin

section \<open>Values carried by the connection controller\<close>

text \<open>
  The controller of \<^verbatim>\<open>ConnectionToCore\<close> runs on one cooperative execution context:
  between two suspension points (\<^verbatim>\<open>await\<close>) a method runs without interruption.
  Every asynchronous method is therefore embedded as its run-to-completion segments, one
  function per stretch of code between two awaits; a segment takes the controller's state
  and returns what the method does next together with the updated state. What an awaited
  operation settles with (it fulfils, or it rejects with an error) is an argument of the
  segment that resumes after it. Wall-clock reads (\<^verbatim>\<open>Date.now()\<close>) are arguments too.

  The transport, the hooks, the logger and the listeners of the controller's own signals
  are outside the controller: a call on one of them is recorded as an effect, in order.
  The one listener the controller itself registers on the transport for a signal it also
  emits there is the once-only listener for \<^verbatim>\<open>disconnected\<close>: the delivery of that
  signal (\<open>transport_disconnected\<close>) is a segment when the transport emits it, and runs
  in place when \<^verbatim>\<open>disconnect\<close> emits it. Timers of pending requests and exceptions
  thrown by listeners are not part of the model.
\<close>

type_synonym IUnixTime = nat
type_synonym message_id = string
type_synonym promise_id = nat

text \<open>
  A JavaScript \<^verbatim>\<open>Error\<close> object, with the properties the controller reads:
  its \<^verbatim>\<open>name\<close>, its message, the host a disconnected error names, whether it is an
  instance of \<^verbatim>\<open>CanceledPromiseError\<close>, and the \<^verbatim>\<open>isDisconnecting\<close> property
  (\<open>None\<close>: the property is absent; \<open>Some True\<close>: it is \<^verbatim>\<open>true\<close>;
  \<open>Some False\<close>: it is present with another value).
\<close>

record error =
  name :: string
  message :: string
  host :: "string option"
  instanceofCanceledPromiseError :: bool
  isDisconnecting :: "bool option"

text \<open>
  Modelled from the spec: the class \<^verbatim>\<open>DisconnectedError\<close> (imported from
  \<^verbatim>\<open>../errors/DisconnectedError\<close>, not among the sources). The spec calls it the
  disconnected-kind error naming the transport host, and has the mass cancellation that
  carries it observed as a cancellation-kind error by \<^verbatim>\<open>sendRequest\<close>.
\<close>

definition DisconnectedError :: "string \<Rightarrow> string option \<Rightarrow> error" where
  "DisconnectedError h msg =
     \<lparr> name = ''DisconnectedError'',
       message = (case msg of Some m \<Rightarrow> m | None \<Rightarrow> ''Disconnected from '' @ h),
       host = Some h,
       instanceofCanceledPromiseError = True,
       isDisconnecting = None \<rparr>"

text \<open>The error the runtime raises when a property of \<^verbatim>\<open>null\<close> is read.\<close>

definition TypeError :: error where
  "TypeError =
     \<lparr> name = ''TypeError'', message = ''Cannot read properties of null'',
       host = None, instanceofCanceledPromiseError = False, isDisconnecting = None \<rparr>"

text \<open>\<^verbatim>\<open>SessionClosedOrMissingError.name\<close>: the name of the imported class.\<close>

definition SessionClosedOrMissingError_name :: string where
  "SessionClosedOrMissingError_name = ''SessionClosedOrMissingError''"

text \<open>The \<^verbatim>\<open>data\<close> of a response: \<^verbatim>\<open>null\<close>, a payload, or an \<^verbatim>\<open>Error\<close>.\<close>

datatype response_data = Null | Payload string | ErrorData error

record ICoreResponsePayload =
  responseId :: message_id
  data :: response_data

text \<open>What an awaited operation without a value settles with.\<close>

datatype settle = Fulfils | Rejects error

text \<open>What the awaited \<^verbatim>\<open>Promise.all\<close> of \<^verbatim>\<open>sendRequest\<close> settles with.\<close>

datatype response_settle = FulfilsWith response_data | RejectsWith error

section \<open>PendingMessages\<close>

text \<open>
  Modelled from the spec: the class \<^verbatim>\<open>PendingMessages\<close> (imported from
  \<^verbatim>\<open>./PendingMessages\<close>, not among the sources), after section 4.1 of the spec: a
  table of outstanding requests keyed by message id, each entry with its
  \<^verbatim>\<open>isInternal\<close> flag. \<open>completions\<close> records, in order, what each entry's promise
  was settled with.
\<close>

datatype completion = Resolved response_data | Rejected error

record PendingMessages =
  lastId :: nat
  pendingById :: "(message_id \<times> bool) list"
  completions :: "(message_id \<times> completion) list"

definition digit_of :: "nat \<Rightarrow> char" where
  "digit_of d = char_of (48 + d)"

function string_of_nat :: "nat \<Rightarrow> string" where
  "string_of_nat n =
     (if n < 10 then [digit_of n] else string_of_nat (n div 10) @ [digit_of (n mod 10)])"
  by pat_completeness auto
termination
  by (relation "measure id") auto

declare string_of_nat.simps [simp del]

definition pm_empty :: PendingMessages where
  "pm_empty = \<lparr> lastId = 0, pendingById = [], completions = [] \<rparr>"

definition pm_has :: "PendingMessages \<Rightarrow> message_id \<Rightarrow> bool" where
  "pm_has pm i = (i \<in> fst ` set (pendingById pm))"

definition pm_remove :: "message_id \<Rightarrow> (message_id \<times> bool) list \<Rightarrow> (message_id \<times> bool) list" where
  "pm_remove i es = filter (\<lambda>e. fst e \<noteq> i) es"

text \<open>\<^verbatim>\<open>create(timeoutMs, isInternal)\<close>: a fresh id and its entry.\<close>

definition pm_create :: "bool \<Rightarrow> PendingMessages \<Rightarrow> message_id \<times> PendingMessages" where
  "pm_create isInternal pm =
     (let i = string_of_nat (lastId pm + 1)
      in (i, pm\<lparr> lastId := lastId pm + 1, pendingById := pendingById pm @ [(i, isInternal)] \<rparr>))"

text \<open>\<^verbatim>\<open>resolve(id, data)\<close>: fulfil and remove the entry if there is one, else nothing.\<close>

definition pm_resolve :: "message_id \<Rightarrow> response_data \<Rightarrow> PendingMessages \<Rightarrow> PendingMessages" where
  "pm_resolve i d pm =
     (if pm_has pm i
      then pm\<lparr> pendingById := pm_remove i (pendingById pm),
               completions := completions pm @ [(i, Resolved d)] \<rparr>
      else pm)"

text \<open>\<^verbatim>\<open>reject(id, error)\<close>: fail and remove the entry if there is one, else nothing.\<close>

definition pm_reject :: "message_id \<Rightarrow> error \<Rightarrow> PendingMessages \<Rightarrow> PendingMessages" where
  "pm_reject i e pm =
     (if pm_has pm i
      then pm\<lparr> pendingById := pm_remove i (pendingById pm),
               completions := completions pm @ [(i, Rejected e)] \<rparr>
      else pm)"

text \<open>\<^verbatim>\<open>delete(id)\<close>: remove the entry without settling it.\<close>

definition pm_delete :: "message_id \<Rightarrow> PendingMessages \<Rightarrow> PendingMessages" where
  "pm_delete i pm = pm\<lparr> pendingById := pm_remove i (pendingById pm) \<rparr>"

text \<open>
  \<^verbatim>\<open>cancel(error)\<close>: the mass cancellation. Section 4.1 of the spec has it fail the
  entries with the error and remove them; sections 3 and 4.3 and the glossary exempt the
  entries marked internal (the requests of the handshake hooks), which it leaves pending.
  So it fails and removes every entry that is not internal and keeps the internal ones.
\<close>

definition pm_cancel :: "error \<Rightarrow> PendingMessages \<Rightarrow> PendingMessages" where
  "pm_cancel e pm =
     pm\<lparr> pendingById := filter (\<lambda>en. snd en) (pendingById pm),
         completions :=
           completions pm
           @ map (\<lambda>en. (fst en, Rejected e)) (filter (\<lambda>en. \<not> snd en) (pendingById pm)) \<rparr>"

section \<open>The state of a ConnectionToCore\<close>

text \<open>
  Modelled from the spec: \<^verbatim>\<open>Resolvable\<close> (imported from the commons library, not among
  the sources), the one-shot completion slot of section 9 of the spec: it is settled at
  most once, and \<^verbatim>\<open>isResolved\<close> holds once it is settled. Promises are objects with an
  identity, so the state keeps a store of them; a promise is named by its index.
\<close>

datatype promise_state = PPending | PFulfilled | PRejected error

definition isResolved :: "promise_state \<Rightarrow> bool" where
  "isResolved p = (p \<noteq> PPending)"

text \<open>
  The transport is an external collaborator: its host (\<open>thost\<close>), its \<^verbatim>\<open>isConnected\<close> flag, whether
  it has the optional \<^verbatim>\<open>connect\<close> and \<^verbatim>\<open>disconnect\<close> operations, and whether the
  once-only listener the constructor registers for its \<^verbatim>\<open>disconnected\<close> signal
  (\<^verbatim>\<open>this.events.once(transport, 'disconnected', ...)\<close>) is still registered.
\<close>

record ITransport =
  thost :: string
  isConnected :: bool
  hasConnect :: bool
  hasDisconnect :: bool
  onceDisconnected :: bool

text \<open>Which hooks are set; what a hook's promise settles with is given at resumption.\<close>

record hooks_t =
  afterConnectFn :: bool
  beforeDisconnectFn :: bool

record payload_t =
  command :: string
  args :: string

text \<open>
  The calls the controller makes on its collaborators, in order: its own emitter, the
  transport, the hooks, the mass cancellation of the pending table, and the logger.
\<close>

datatype effect =
    Emit string
  | EmitEvent string
  | TransportEmit string
  | TransportConnect nat
  | TransportDisconnect
  | TransportSend message_id payload_t IUnixTime
  | CallAfterConnectFn
  | CallBeforeDisconnectFn
  | PendingCancel error
  | LogStats string

text \<open>
  The fields of the class, in the order of the source, then what the overridable
  \<^verbatim>\<open>hasActiveSessions\<close> answers, the store of promises, and the effects so far.
\<close>

record ConnectionToCore =
  connectPromise :: "promise_id option"
  disconnectPromise :: "promise_id option"
  connectStartTime :: "IUnixTime option"
  didAutoConnect :: bool
  disconnectStartTime :: "IUnixTime option"
  disconnectError :: "error option"
  hooks :: hooks_t
  connectMessageId :: "message_id option"
  disconnectMessageId :: "message_id option"
  pendingMessages :: PendingMessages
  isConnectionTerminated :: bool
  isSendingConnect :: bool
  isSendingDisconnect :: bool
  transport :: ITransport
  activeSessions :: bool
  promises :: "promise_state list"
  effects :: "effect list"

definition do_effect :: "effect \<Rightarrow> ConnectionToCore \<Rightarrow> ConnectionToCore" where
  "do_effect e c = c\<lparr> effects := effects c @ [e] \<rparr>"

text \<open>\<^verbatim>\<open>this.pendingMessages.cancel(error)\<close>, recorded among the effects.\<close>

definition cancel_pending :: "error \<Rightarrow> ConnectionToCore \<Rightarrow> ConnectionToCore" where
  "cancel_pending e c =
     do_effect (PendingCancel e) (c\<lparr> pendingMessages := pm_cancel e (pendingMessages c) \<rparr>)"

text \<open>\<^verbatim>\<open>new Resolvable()\<close>: a fresh pending promise at the end of the store.\<close>

definition new_Resolvable :: "ConnectionToCore \<Rightarrow> promise_id \<times> ConnectionToCore" where
  "new_Resolvable c = (length (promises c), c\<lparr> promises := promises c @ [PPending] \<rparr>)"

definition settle_promise :: "promise_id \<Rightarrow> promise_state \<Rightarrow> ConnectionToCore \<Rightarrow> ConnectionToCore" where
  "settle_promise p v c =
     (if p < length (promises c) \<and> promises c ! p = PPending
      then c\<lparr> promises := (promises c)[p := v] \<rparr> else c)"

definition resolve_promise :: "promise_id \<Rightarrow> ConnectionToCore \<Rightarrow> ConnectionToCore" where
  "resolve_promise p c = settle_promise p PFulfilled c"

definition reject_promise :: "promise_id \<Rightarrow> error \<Rightarrow> ConnectionToCore \<Rightarrow> ConnectionToCore" where
  "reject_promise p e c = settle_promise p (PRejected e) c"

definition promise_at :: "ConnectionToCore \<Rightarrow> promise_id \<Rightarrow> promise_state" where
  "promise_at c p = (if p < length (promises c) then promises c ! p else PPending)"

text \<open>
  \<^verbatim>\<open>hasActiveSessions()\<close> returns false in this class and is meant to be overridden;
  the field \<open>activeSessions\<close> stands for what the override answers.
\<close>

definition hasActiveSessions :: "ConnectionToCore \<Rightarrow> bool" where
  "hasActiveSessions c = activeSessions c"

text \<open>The truthiness of a string-valued field: set, and not the empty string.\<close>

definition truthy :: "message_id option \<Rightarrow> bool" where
  "truthy m = (case m of None \<Rightarrow> False | Some i \<Rightarrow> i \<noteq> [])"

text \<open>The constructor (lines 60-74).\<close>

definition new_ConnectionToCore :: "ITransport \<Rightarrow> bool \<Rightarrow> ConnectionToCore" where
  "new_ConnectionToCore t skipConnect =
     (let c = \<lparr> connectPromise = None, disconnectPromise = None, connectStartTime = None,
                didAutoConnect = False, disconnectStartTime = None, disconnectError = None,
                hooks = \<lparr> afterConnectFn = False, beforeDisconnectFn = False \<rparr>,
                connectMessageId = None, disconnectMessageId = None,
                pendingMessages = pm_empty, isConnectionTerminated = False,
                isSendingConnect = False, isSendingDisconnect = False,
                transport = t\<lparr> onceDisconnected := True \<rparr>,
                activeSessions = False, promises = [], effects = [] \<rparr>
      in if isConnected t \<and> skipConnect
         then (let (p, c1) = new_Resolvable c
               in resolve_promise p (c1\<lparr> connectPromise := Some p \<rparr>))
         else c)"

section \<open>Inbound frames\<close>

definition isBrowserLaunchError :: "error \<Rightarrow> bool" where
  "isBrowserLaunchError e =
     (name e = ''BrowserLaunchError'' \<or> name e = ''DependenciesMissingError'')"

text \<open>\<^verbatim>\<open>onResponse\<close> (lines 204-221).\<close>

definition onResponse :: "ICoreResponsePayload \<Rightarrow> ConnectionToCore \<Rightarrow> ConnectionToCore" where
  "onResponse msg c =
     (let i = responseId msg in
      case data msg of
        ErrorData responseError \<Rightarrow>
          (let isDisconnected =
                 (disconnectPromise c \<noteq> None
                  \<or> name responseError = SessionClosedOrMissingError_name
                  \<or> isDisconnecting responseError = Some True);
               scrubbed = responseError\<lparr> isDisconnecting := None \<rparr>;
               delivered =
                 (if isDisconnected \<and> \<not> isBrowserLaunchError scrubbed
                  then DisconnectedError (thost (transport c)) None
                  else scrubbed)
           in c\<lparr> pendingMessages := pm_reject i delivered (pendingMessages c) \<rparr>)
      | d \<Rightarrow> c\<lparr> pendingMessages := pm_resolve i d (pendingMessages c) \<rparr>)"

text \<open>\<^verbatim>\<open>onEvent\<close> (lines 223-225) and the dispatch of \<^verbatim>\<open>onMessage\<close> (lines 194-202).\<close>

datatype frame =
    ResponseFrame ICoreResponsePayload
  | EventFrame string
  | OtherFrame

definition onEvent :: "string \<Rightarrow> ConnectionToCore \<Rightarrow> ConnectionToCore" where
  "onEvent ev c = do_effect (EmitEvent ev) c"

fun onMessage :: "frame \<Rightarrow> ConnectionToCore \<Rightarrow> ConnectionToCore" where
  "onMessage (ResponseFrame m) c = onResponse m c"
| "onMessage (EventFrame ev) c = onEvent ev c"
| "onMessage OtherFrame c = c"

section \<open>The asynchronous methods, segment by segment\<close>

text \<open>
  What a segment ends with: the method returns a value, throws, or suspends at an
  \<^verbatim>\<open>await\<close>, keeping the local variables its next segment needs.
\<close>

datatype ('r, 'l) outcome = Returns 'r | Throws error | Suspends 'l

subsection \<open>connect (lines 76-109)\<close>

text \<open>Line 108: \<^verbatim>\<open>return this.connectPromise.promise\<close>.\<close>

definition connect_return :: "ConnectionToCore \<Rightarrow> (promise_id, unit) outcome \<times> ConnectionToCore" where
  "connect_return c =
     (case connectPromise c of None \<Rightarrow> (Throws TypeError, c) | Some p \<Rightarrow> (Returns p, c))"

text \<open>Lines 103-105: the \<^verbatim>\<open>catch\<close> block rejects \<^verbatim>\<open>connectPromise\<close>.\<close>

definition connect_catch :: "error \<Rightarrow> ConnectionToCore \<Rightarrow> (promise_id, unit) outcome \<times> ConnectionToCore" where
  "connect_catch err c =
     (case connectPromise c of
        None \<Rightarrow> (Throws TypeError, c)
      | Some p \<Rightarrow> connect_return (reject_promise p err c))"

text \<open>Lines 98-102: resolve, emit, mark the transport connected.\<close>

definition connect_finish :: "ConnectionToCore \<Rightarrow> (promise_id, unit) outcome \<times> ConnectionToCore" where
  "connect_finish c =
     (case connectPromise c of
        None \<Rightarrow> connect_catch TypeError c
      | Some p \<Rightarrow>
          (let c1 = resolve_promise p c;
               c2 = do_effect (Emit ''connected'') c1;
               c3 = c2\<lparr> transport := (transport c2)\<lparr> isConnected := True \<rparr> \<rparr>;
               c4 = do_effect (TransportEmit ''connected'') c3
           in connect_return c4))"

text \<open>Lines 77-82: from the call to the await of the transport's connect.\<close>

definition connect_enter ::
  "bool \<Rightarrow> nat \<Rightarrow> IUnixTime \<Rightarrow> ConnectionToCore \<Rightarrow> (promise_id, unit) outcome \<times> ConnectionToCore" where
  "connect_enter isAutoConnect timeoutMs now c =
     (if connectPromise c = None
      then (let c1 = c\<lparr> didAutoConnect := isAutoConnect, connectStartTime := Some now \<rparr>;
                (p, c2) = new_Resolvable c1;
                c3 = c2\<lparr> connectPromise := Some p \<rparr>
            in (Suspends (),
                if hasConnect (transport c3) then do_effect (TransportConnect timeoutMs) c3 else c3))
      else connect_return c)"

text \<open>Lines 84-95: after the transport's connect has settled, up to the await of the hook.\<close>

definition connect_after_transport ::
  "settle \<Rightarrow> ConnectionToCore \<Rightarrow> (promise_id, unit) outcome \<times> ConnectionToCore" where
  "connect_after_transport r c =
     (case r of
        Rejects err \<Rightarrow> connect_catch err c
      | Fulfils \<Rightarrow>
          if hasActiveSessions c \<and> disconnectPromise c \<noteq> None \<and> \<not> didAutoConnect c
          then connect_catch
                 (DisconnectedError (thost (transport c))
                    (Some (''Disconnecting during initial connection handshake to ''
                           @ thost (transport c)))) c
          else (case connectPromise c of
                  None \<Rightarrow> connect_catch TypeError c
                | Some p \<Rightarrow>
                    if \<not> isResolved (promise_at c p) \<and> afterConnectFn (hooks c)
                    then (Suspends (), do_effect CallAfterConnectFn (c\<lparr> isSendingConnect := True \<rparr>))
                    else connect_finish c))"

text \<open>Lines 96-102: after the hook has settled.\<close>

definition connect_after_hook ::
  "settle \<Rightarrow> ConnectionToCore \<Rightarrow> (promise_id, unit) outcome \<times> ConnectionToCore" where
  "connect_after_hook r c =
     (case r of
        Rejects err \<Rightarrow> connect_catch err c
      | Fulfils \<Rightarrow> connect_finish (c\<lparr> isSendingConnect := False \<rparr>))"

subsection \<open>Optional calls\<close>

text \<open>\<^verbatim>\<open>this.hooks.beforeDisconnectFn?.()\<close>: the hook is called when it is set.\<close>

definition call_beforeDisconnectFn :: "ConnectionToCore \<Rightarrow> ConnectionToCore" where
  "call_beforeDisconnectFn c =
     (if beforeDisconnectFn (hooks c) then do_effect CallBeforeDisconnectFn c else c)"

text \<open>\<^verbatim>\<open>this.transport.disconnect?.()\<close>: the operation is called when the transport has it.\<close>

definition call_transport_disconnect :: "ConnectionToCore \<Rightarrow> ConnectionToCore" where
  "call_transport_disconnect c =
     (if hasDisconnect (transport c) then do_effect TransportDisconnect c else c)"

subsection \<open>onConnectionTerminated (lines 227-248)\<close>

text \<open>Lines 232-237: the response synthesized for an outstanding internal connect request.\<close>

definition respond_to_connect :: "ConnectionToCore \<Rightarrow> ConnectionToCore" where
  "respond_to_connect c =
     (if truthy (connectMessageId c)
      then onResponse
             \<lparr> responseId = the (connectMessageId c),
               data = (if \<not> didAutoConnect c
                       then ErrorData (DisconnectedError (thost (transport c)) None)
                       else Null) \<rparr> c
      else c)"

text \<open>Lines 238-243: the response synthesized for an outstanding internal disconnect request.\<close>

definition respond_to_disconnect :: "ConnectionToCore \<Rightarrow> ConnectionToCore" where
  "respond_to_disconnect c =
     (if truthy (disconnectMessageId c)
      then onResponse \<lparr> responseId = the (disconnectMessageId c), data = Null \<rparr> c
      else c)"

text \<open>Lines 228-246: from the call to the await of \<^verbatim>\<open>beforeDisconnectFn\<close>.\<close>

definition onConnectionTerminated_enter ::
  "ConnectionToCore \<Rightarrow> (unit, unit) outcome \<times> ConnectionToCore" where
  "onConnectionTerminated_enter c =
     (if isConnectionTerminated c then (Returns (), c)
      else
        (let c1 = c\<lparr> isConnectionTerminated := True \<rparr>;
             c2 = do_effect (Emit ''disconnected'') c1;
             c3 = respond_to_connect c2;
             c4 = respond_to_disconnect c3;
             c5 = cancel_pending (DisconnectedError (thost (transport c4)) None) c4;
             c6 = c5\<lparr> isSendingDisconnect := True \<rparr>;
             c7 = call_beforeDisconnectFn c6
         in (Suspends (), c7)))"

text \<open>Line 247: after the hook has settled.\<close>

definition onConnectionTerminated_after_hook ::
  "settle \<Rightarrow> ConnectionToCore \<Rightarrow> (unit, unit) outcome \<times> ConnectionToCore" where
  "onConnectionTerminated_after_hook r c =
     (case r of
        Rejects err \<Rightarrow> (Throws err, c)
      | Fulfils \<Rightarrow> (Returns (), c\<lparr> isSendingDisconnect := False \<rparr>))"

text \<open>
  The transport emits \<^verbatim>\<open>disconnected\<close>: the listener registered with \<^verbatim>\<open>once\<close> is
  removed and called, when it is still registered.
\<close>

definition transport_disconnected ::
  "ConnectionToCore \<Rightarrow> (unit, unit) outcome \<times> ConnectionToCore" where
  "transport_disconnected c =
     (if onceDisconnected (transport c)
      then onConnectionTerminated_enter
             (c\<lparr> transport := (transport c)\<lparr> onceDisconnected := False \<rparr> \<rparr>)
      else (Returns (), c))"

subsection \<open>disconnect (lines 111-144)\<close>

text \<open>Lines 140-143: the \<^verbatim>\<open>finally\<close> block resolves the local resolvable.\<close>

definition disconnect_finally ::
  "promise_id \<Rightarrow> error option \<Rightarrow> ConnectionToCore \<Rightarrow> (promise_id option, promise_id) outcome \<times> ConnectionToCore" where
  "disconnect_finally resolvable thrown c =
     (let c1 = resolve_promise resolvable c
      in case thrown of
           Some err \<Rightarrow> (Throws err, c1)
         | None \<Rightarrow> (Returns (disconnectPromise c1), c1))"

text \<open>Lines 113-127: from the call to the await of \<^verbatim>\<open>beforeDisconnectFn\<close>.\<close>

definition disconnect_enter ::
  "error option \<Rightarrow> IUnixTime \<Rightarrow> ConnectionToCore \<Rightarrow> (promise_id option, promise_id) outcome \<times> ConnectionToCore" where
  "disconnect_enter fatalError now c =
     (let c1 = c\<lparr> disconnectStartTime := Some now, disconnectError := fatalError \<rparr>
      in case disconnectPromise c1 of
           Some p \<Rightarrow> (Returns (Some p), c1)
         | None \<Rightarrow>
             (let (resolvable, c2) = new_Resolvable c1;
                  c3 = c2\<lparr> disconnectPromise := Some resolvable \<rparr>;
                  c4 = do_effect (LogStats ''ConnectionToCore.Disconnecting'') c3;
                  c5 = cancel_pending (DisconnectedError (thost (transport c4)) None) c4;
                  c6 = c5\<lparr> isSendingDisconnect := True \<rparr>;
                  c7 = call_beforeDisconnectFn c6
              in (Suspends resolvable, c7)))"

text \<open>Lines 128-130: after the hook has settled, up to the await of the transport's disconnect.\<close>

definition disconnect_after_hook ::
  "promise_id \<Rightarrow> settle \<Rightarrow> ConnectionToCore \<Rightarrow> (promise_id option, promise_id) outcome \<times> ConnectionToCore" where
  "disconnect_after_hook resolvable r c =
     (case r of
        Rejects err \<Rightarrow> disconnect_finally resolvable (Some err) c
      | Fulfils \<Rightarrow>
          (let c1 = c\<lparr> isSendingDisconnect := False \<rparr>;
               c2 = call_transport_disconnect c1
           in (Suspends resolvable, c2)))"

text \<open>
  Lines 131-139: the end of the teardown. Line 132 emits \<^verbatim>\<open>disconnected\<close> on the
  transport, which calls the listeners registered on it in place: the once-only listener
  of the constructor (line 67), when it is still registered, runs
  \<^verbatim>\<open>onConnectionTerminated\<close> up to its await before line 133.
\<close>

definition disconnect_teardown_end :: "ConnectionToCore \<Rightarrow> ConnectionToCore" where
  "disconnect_teardown_end c =
     (let c1 = c\<lparr> transport := (transport c)\<lparr> isConnected := False \<rparr> \<rparr>;
          c2 = snd (transport_disconnected (do_effect (TransportEmit ''disconnected'') c1));
          c3 = do_effect (Emit ''disconnected'') c2;
          c4 = do_effect (LogStats ''ConnectionToCore.Disconnected'') c3
      in c4\<lparr> connectPromise := None \<rparr>)"

text \<open>Lines 131-143: after the transport's disconnect has settled.\<close>

definition disconnect_after_transport ::
  "promise_id \<Rightarrow> settle \<Rightarrow> ConnectionToCore \<Rightarrow> (promise_id option, promise_id) outcome \<times> ConnectionToCore" where
  "disconnect_after_transport resolvable r c =
     (case r of
        Rejects err \<Rightarrow> disconnect_finally resolvable (Some err) c
      | Fulfils \<Rightarrow> disconnect_finally resolvable None (disconnect_teardown_end c))"

subsection \<open>sendRequest (lines 146-185)\<close>

text \<open>
  Lines 161-173: create the pending entry, record an internal id, hand the frame to the
  transport, and await the entry's promise together with the send. The timer that
  \<^verbatim>\<open>create\<close> may start is not part of the model.
\<close>

definition sendRequest_send ::
  "bool \<Rightarrow> bool \<Rightarrow> payload_t \<Rightarrow> IUnixTime \<Rightarrow> ConnectionToCore
     \<Rightarrow> (response_data option, message_id option) outcome \<times> ConnectionToCore" where
  "sendRequest_send isConnect isDisconnect payload now c =
     (let (i, pm) = pm_create (isConnect \<or> isDisconnect) (pendingMessages c);
          c1 = c\<lparr> pendingMessages := pm \<rparr>;
          c2 = c1\<lparr> connectMessageId := (if isConnect then Some i else connectMessageId c1) \<rparr>;
          c3 = c2\<lparr> disconnectMessageId := (if isDisconnect then Some i else disconnectMessageId c2) \<rparr>
      in (Suspends (Some i), do_effect (TransportSend i payload now) c3))"

text \<open>
  Lines 155-159: sample the flags; when neither is set, call \<^verbatim>\<open>this.connect()\<close> (both
  parameters take their defaults) and await its promise; the local \<^verbatim>\<open>id\<close> is not
  assigned yet (\<open>Suspends None\<close>).
\<close>

definition sendRequest_enter ::
  "payload_t \<Rightarrow> IUnixTime \<Rightarrow> ConnectionToCore
     \<Rightarrow> (response_data option, message_id option) outcome \<times> ConnectionToCore" where
  "sendRequest_enter payload now c =
     (let isConnect = isSendingConnect c;
          isDisconnect = isSendingDisconnect c
      in if \<not> isConnect \<and> \<not> isDisconnect
         then (Suspends None, snd (connect_enter False 30000 now c))
         else sendRequest_send isConnect isDisconnect payload now c)"

text \<open>After the promise of \<^verbatim>\<open>connect()\<close> has settled: neither flag was set at entry.\<close>

definition sendRequest_after_connect ::
  "settle \<Rightarrow> payload_t \<Rightarrow> IUnixTime \<Rightarrow> ConnectionToCore
     \<Rightarrow> (response_data option, message_id option) outcome \<times> ConnectionToCore" where
  "sendRequest_after_connect r payload now c =
     (case r of
        Rejects err \<Rightarrow> (Throws err, c)
      | Fulfils \<Rightarrow> sendRequest_send False False payload now c)"

text \<open>
  Lines 174-184: after the awaited pair has settled. \<open>Returns None\<close> is the bare
  \<^verbatim>\<open>return\<close> (the value \<^verbatim>\<open>undefined\<close>).
\<close>

definition sendRequest_settled ::
  "bool \<Rightarrow> bool \<Rightarrow> message_id \<Rightarrow> response_settle \<Rightarrow> ConnectionToCore
     \<Rightarrow> (response_data option, message_id option) outcome \<times> ConnectionToCore" where
  "sendRequest_settled isConnect isDisconnect i r c =
     (let (res, c1) =
            (case r of
               FulfilsWith result \<Rightarrow> (Returns (Some result), c)
             | RejectsWith err \<Rightarrow>
                 (let c0 = c\<lparr> pendingMessages := pm_delete i (pendingMessages c) \<rparr>
                  in if disconnectPromise c0 \<noteq> None \<and> instanceofCanceledPromiseError err
                     then (Returns None, c0)
                     else (Throws err, c0)));
          c2 = c1\<lparr> connectMessageId := (if isConnect then None else connectMessageId c1) \<rparr>;
          c3 = c2\<lparr> disconnectMessageId := (if isDisconnect then None else disconnectMessageId c2) \<rparr>
      in (res, c3))"

section \<open>Executions\<close>

text \<open>
  An execution of the controller is a sequence of segments: calls of its methods, frames
  and signals delivered by the transport, and resumptions of suspended methods with what
  the awaited operation settled with and the locals the method kept.
\<close>

datatype event =
    CallConnect bool nat IUnixTime
  | ResumeConnectAfterTransport settle
  | ResumeConnectAfterHook settle
  | CallDisconnect "error option" IUnixTime
  | ResumeDisconnectAfterHook promise_id settle
  | ResumeDisconnectAfterTransport promise_id settle
  | CallSendRequest payload_t IUnixTime
  | ResumeSendRequestAfterConnect settle payload_t IUnixTime
  | ResumeSendRequestSettled bool bool message_id response_settle
  | TransportMessage frame
  | TransportDisconnected
  | CallOnConnectionTerminated
  | ResumeTerminatedAfterHook settle

fun step :: "ConnectionToCore \<Rightarrow> event \<Rightarrow> ConnectionToCore" where
  "step c (CallConnect isAutoConnect timeoutMs now) = snd (connect_enter isAutoConnect timeoutMs now c)"
| "step c (ResumeConnectAfterTransport r) = snd (connect_after_transport r c)"
| "step c (ResumeConnectAfterHook r) = snd (connect_after_hook r c)"
| "step c (CallDisconnect fatalError now) = snd (disconnect_enter fatalError now c)"
| "step c (ResumeDisconnectAfterHook resolvable r) = snd (disconnect_after_hook resolvable r c)"
| "step c (ResumeDisconnectAfterTransport resolvable r) = snd (disconnect_after_transport resolvable r c)"
| "step c (CallSendRequest payload now) = snd (sendRequest_enter payload now c)"
| "step c (ResumeSendRequestAfterConnect r payload now) = snd (sendRequest_after_connect r payload now c)"
| "step c (ResumeSendRequestSettled isConnect isDisconnect i r) = snd (sendRequest_settled isConnect isDisconnect i r c)"
| "step c (TransportMessage f) = onMessage f c"
| "step c TransportDisconnected = snd (transport_disconnected c)"
| "step c CallOnConnectionTerminated = snd (onConnectionTerminated_enter c)"
| "step c (ResumeTerminatedAfterHook r) = snd (onConnectionTerminated_after_hook r c)"

definition run :: "event list \<Rightarrow> ConnectionToCore \<Rightarrow> ConnectionToCore" where
  "run evs c = foldl step c evs"

text \<open>
  One whole \<^verbatim>\<open>disconnect(fatalError)\<close>, from the call to its return or throw, with the
  executions \<open>evs1\<close> and \<open>evs2\<close> of other segments that take place while it is
  suspended at its two awaits.
\<close>

definition disconnect_exec ::
  "error option \<Rightarrow> IUnixTime \<Rightarrow> event list \<Rightarrow> settle \<Rightarrow> event list \<Rightarrow> settle \<Rightarrow> ConnectionToCore
     \<Rightarrow> (promise_id option, promise_id) outcome \<times> ConnectionToCore" where
  "disconnect_exec fatalError now evs1 rh evs2 rt c =
     (case disconnect_enter fatalError now c of
        (Suspends resolvable, c1) \<Rightarrow>
          (case disconnect_after_hook resolvable rh (run evs1 c1) of
             (Suspends resolvable', c2) \<Rightarrow> disconnect_after_transport resolvable' rt (run evs2 c2)
           | done \<Rightarrow> done)
      | done \<Rightarrow> done)"

text \<open>Further \<^verbatim>\<open>disconnect\<close> calls, one after the other: what each returns, and the state.\<close>

fun disconnect_calls ::
  "(error option \<times> IUnixTime) list \<Rightarrow> ConnectionToCore
     \<Rightarrow> (promise_id option, promise_id) outcome list \<times> ConnectionToCore" where
  "disconnect_calls [] c = ([], c)"
| "disconnect_calls ((fatalError, now) # xs) c =
     (let (r, c1) = disconnect_enter fatalError now c;
          (rs, c2) = disconnect_calls xs c1
      in (r # rs, c2))"

text \<open>
  A first \<^verbatim>\<open>disconnect\<close> call together with the further calls made while it is suspended
  at the hook (\<open>xs1\<close>), while it is suspended at the transport (\<open>xs2\<close>) and after it has
  finished (\<open>xs3\<close>): the outcome of the first call, what the further calls return, and
  the state.
\<close>

definition disconnect_concurrent ::
  "error option \<Rightarrow> IUnixTime \<Rightarrow> settle \<Rightarrow> settle
     \<Rightarrow> (error option \<times> IUnixTime) list \<Rightarrow> (error option \<times> IUnixTime) list
     \<Rightarrow> (error option \<times> IUnixTime) list \<Rightarrow> ConnectionToCore
     \<Rightarrow> (promise_id option, promise_id) outcome
         \<times> (promise_id option, promise_id) outcome list \<times> ConnectionToCore" where
  "disconnect_concurrent fatalError now rh rt xs1 xs2 xs3 c =
     (case disconnect_enter fatalError now c of
        (Suspends resolvable, c1) \<Rightarrow>
          (let (rs1, c1') = disconnect_calls xs1 c1
           in case disconnect_after_hook resolvable rh c1' of
                (Suspends resolvable', c2) \<Rightarrow>
                  (let (rs2, c2') = disconnect_calls xs2 c2;
                       (res, c3) = disconnect_after_transport resolvable' rt c2';
                       (rs3, c3') = disconnect_calls xs3 c3
                   in (res, rs1 @ rs2 @ rs3, c3'))
              | (res, c2) \<Rightarrow>
                  (let (rs3, c3') = disconnect_calls (xs2 @ xs3) c2
                   in (res, rs1 @ rs3, c3')))
      | (res, c1) \<Rightarrow>
          (let (rs, c') = disconnect_calls (xs1 @ xs2 @ xs3) c1
           in (res, rs, c')))"

section \<open>Example states\<close>

definition example_transport :: ITransport where
  "example_transport =
     \<lparr> thost = ''core.example:1818'', isConnected = False, hasConnect = True,
       hasDisconnect = True, onceDisconnected = False \<rparr>"

definition example_payload :: payload_t where
  "example_payload = \<lparr> command = ''ping'', args = ''{}'' \<rparr>"

definition example_error :: error where
  "example_error =
     \<lparr> name = ''Error'', message = ''hook failed'', host = None,
       instanceofCanceledPromiseError = False, isDisconnecting = None \<rparr>"

text \<open>A fresh controller, and one with both hooks set.\<close>

definition fresh :: ConnectionToCore where
  "fresh = new_ConnectionToCore example_transport False"

definition fresh_with_hooks :: ConnectionToCore where
  "fresh_with_hooks = fresh\<lparr> hooks := \<lparr> afterConnectFn = True, beforeDisconnectFn = True \<rparr> \<rparr>"

text \<open>A controller with one user request in flight, and an error carrying the marker.\<close>

definition example_pending :: ConnectionToCore where
  "example_pending = snd (sendRequest_send False False example_payload 5 fresh)"

definition example_marked_error :: error where
  "example_marked_error = example_error\<lparr> name := ''X'', isDisconnecting := Some True \<rparr>"

text \<open>
  A controller in the middle of its handshake: the internal connect request \<open>''1''\<close> and
  a user request \<open>''2''\<close> are in flight.
\<close>

definition example_handshake :: ConnectionToCore where
  "example_handshake =
     snd (sendRequest_send False False example_payload 6
            (snd (sendRequest_send True False example_payload 5 fresh)))"

text \<open>
  A connect whose \<^verbatim>\<open>afterConnectFn\<close> has sent two requests that are both in flight:
  both entries are internal, and \<^verbatim>\<open>connectMessageId\<close> names the second.
\<close>

definition example_two_hook_requests :: "event list" where
  "example_two_hook_requests =
     [CallConnect False 30000 1, ResumeConnectAfterTransport Fulfils,
      CallSendRequest example_payload 2, CallSendRequest example_payload 3]"

text \<open>A controller with both hooks set that has seen its transport terminate.\<close>

definition example_terminated :: ConnectionToCore where
  "example_terminated =
     run [TransportDisconnected, ResumeTerminatedAfterHook Fulfils] fresh_with_hooks"

text \<open>
  One connection generation (a connect and a disconnect, each run to its end, and the
  end of the listener the disconnect has run), and the connect that opens the next one.
\<close>

definition example_generation :: "event list" where
  "example_generation =
     [CallConnect False 30000 1, ResumeConnectAfterTransport Fulfils,
      CallDisconnect None 2, ResumeDisconnectAfterHook 1 Fulfils,
      ResumeDisconnectAfterTransport 1 Fulfils, ResumeTerminatedAfterHook Fulfils]"

definition example_reconnect :: "event list" where
  "example_reconnect = [CallConnect False 30000 3, ResumeConnectAfterTransport Fulfils]"

section \<open>Promise references\<close>

text \<open>
  The promises a state names are in its store. Every state reached from the
  constructor is of this kind (\<open>new_promises_named\<close>, \<open>run_promises_named\<close> below).
\<close>

fun in_store :: "promise_id option \<Rightarrow> promise_state list \<Rightarrow> bool" where
  "in_store None ps = True"
| "in_store (Some q) ps = (q < length ps)"

definition promises_named :: "ConnectionToCore \<Rightarrow> bool" where
  "promises_named c =
     (in_store (connectPromise c) (promises c) \<and> in_store (disconnectPromise c) (promises c))"


section \<open>Facts about the examples and the pending table\<close>

lemma string_of_nat_1: "string_of_nat (Suc 0) = ''1''"
  by code_simp

lemma fresh_eval:
  "isSendingConnect fresh = False" "isSendingDisconnect fresh = False"
  "connectPromise fresh = None" "disconnectPromise fresh = None" "promises fresh = []"
  by (simp_all add: fresh_def new_ConnectionToCore_def example_transport_def Let_def)

lemma example_pending_eval:
  "pendingMessages example_pending = \<lparr> lastId = 1, pendingById = [(''1'', False)], completions = [] \<rparr>"
  "disconnectPromise example_pending = None"
  "thost (transport example_pending) = ''core.example:1818''"
  by (simp_all add: example_pending_def sendRequest_send_def pm_create_def fresh_def
      new_ConnectionToCore_def example_transport_def pm_empty_def do_effect_def Let_def
      string_of_nat_1)

lemma pm_remove_absent: "i \<notin> fst ` set (pm_remove i es)"
  by (auto simp: pm_remove_def)

lemma string_of_nat_2: "string_of_nat (Suc (Suc 0)) = ''2''"
  by code_simp

lemma pm_remove_id: "i \<notin> fst ` set es \<Longrightarrow> pm_remove i es = es"
  by (induction es) (auto simp: pm_remove_def)

lemma pm_reject_fields:
  "pendingById (pm_reject i e pm) = pm_remove i (pendingById pm)"
  "completions (pm_reject i e pm) =
     completions pm @ (if i \<in> fst ` set (pendingById pm) then [(i, Rejected e)] else [])"
  by (simp_all add: pm_reject_def pm_has_def pm_remove_id)

lemma pm_resolve_fields:
  "pendingById (pm_resolve i d pm) = pm_remove i (pendingById pm)"
  "completions (pm_resolve i d pm) =
     completions pm @ (if i \<in> fst ` set (pendingById pm) then [(i, Resolved d)] else [])"
  by (simp_all add: pm_resolve_def pm_has_def pm_remove_id)

lemma pm_cancel_fields:
  "pendingById (pm_cancel e pm) = filter (\<lambda>en. snd en) (pendingById pm)"
  "completions (pm_cancel e pm) =
     completions pm
     @ map (\<lambda>en. (fst en, Rejected e)) (filter (\<lambda>en. \<not> snd en) (pendingById pm))"
  by (simp_all add: pm_cancel_def)

lemma onResponse_Null:
  "onResponse \<lparr> responseId = i, data = Null \<rparr> c = c\<lparr> pendingMessages := pm_resolve i Null (pendingMessages c) \<rparr>"
  by (simp add: onResponse_def)

lemma onResponse_DisconnectedError:
  "onResponse \<lparr> responseId = i, data = ErrorData (DisconnectedError (thost (transport c)) None) \<rparr> c
     = c\<lparr> pendingMessages := pm_reject i (DisconnectedError (thost (transport c)) None) (pendingMessages c) \<rparr>"
  by (simp add: onResponse_def Let_def isBrowserLaunchError_def DisconnectedError_def)

lemma respond_to_connect_eq:
  "respond_to_connect c =
     c\<lparr> pendingMessages :=
          (if truthy (connectMessageId c)
           then (if didAutoConnect c
                 then pm_resolve (the (connectMessageId c)) Null (pendingMessages c)
                 else pm_reject (the (connectMessageId c))
                        (DisconnectedError (thost (transport c)) None) (pendingMessages c))
           else pendingMessages c) \<rparr>"
  by (simp add: respond_to_connect_def onResponse_Null onResponse_DisconnectedError)

lemma respond_to_disconnect_eq:
  "respond_to_disconnect c =
     c\<lparr> pendingMessages :=
          (if truthy (disconnectMessageId c)
           then pm_resolve (the (disconnectMessageId c)) Null (pendingMessages c)
           else pendingMessages c) \<rparr>"
  by (simp add: respond_to_disconnect_def onResponse_Null)

lemma example_handshake_eval:
  "pendingMessages example_handshake = \<lparr> lastId = 2, pendingById = [(''1'', True), (''2'', False)], completions = [] \<rparr>"
  "connectMessageId example_handshake = Some ''1''"
  "disconnectMessageId example_handshake = None"
  "didAutoConnect example_handshake = False"
  "isConnectionTerminated example_handshake = False"
  "thost (transport example_handshake) = ''core.example:1818''"
  by (simp_all add: example_handshake_def sendRequest_send_def pm_create_def fresh_def
      new_ConnectionToCore_def example_transport_def pm_empty_def do_effect_def Let_def
      string_of_nat_1 string_of_nat_2 numeral_2_eq_2)

lemma fresh_with_hooks_eval:
  "fresh_with_hooks =
     \<lparr> connectPromise = None, disconnectPromise = None, connectStartTime = None,
       didAutoConnect = False, disconnectStartTime = None, disconnectError = None,
       hooks = \<lparr> afterConnectFn = True, beforeDisconnectFn = True \<rparr>,
       connectMessageId = None, disconnectMessageId = None,
       pendingMessages = pm_empty, isConnectionTerminated = False,
       isSendingConnect = False, isSendingDisconnect = False,
       transport = example_transport\<lparr> onceDisconnected := True \<rparr>,
       activeSessions = False, promises = [], effects = [] \<rparr>"
  by (simp add: fresh_with_hooks_def fresh_def new_ConnectionToCore_def example_transport_def Let_def)

lemma fresh_record:
  "fresh =
     \<lparr> connectPromise = None, disconnectPromise = None, connectStartTime = None,
       didAutoConnect = False, disconnectStartTime = None, disconnectError = None,
       hooks = \<lparr> afterConnectFn = False, beforeDisconnectFn = False \<rparr>,
       connectMessageId = None, disconnectMessageId = None,
       pendingMessages = pm_empty, isConnectionTerminated = False,
       isSendingConnect = False, isSendingDisconnect = False,
       transport = example_transport\<lparr> onceDisconnected := True \<rparr>,
       activeSessions = False, promises = [], effects = [] \<rparr>"
  by (simp add: fresh_def new_ConnectionToCore_def example_transport_def Let_def)

lemmas segment_defs =
  connect_enter_def connect_after_transport_def connect_after_hook_def connect_catch_def
  connect_finish_def connect_return_def new_Resolvable_def do_effect_def reject_promise_def
  resolve_promise_def settle_promise_def promise_at_def isResolved_def hasActiveSessions_def
  disconnect_enter_def disconnect_after_hook_def disconnect_after_transport_def
  disconnect_teardown_end_def disconnect_finally_def cancel_pending_def call_beforeDisconnectFn_def
  call_transport_disconnect_def transport_disconnected_def onConnectionTerminated_enter_def
  onConnectionTerminated_after_hook_def respond_to_connect_def respond_to_disconnect_def
  truthy_def pm_cancel_def pm_empty_def

lemma example_generation_eval:
  "connectPromise (run example_generation fresh) = None"
  "disconnectPromise (run example_generation fresh) = Some 1"
  "promises (run example_generation fresh) = [PFulfilled, PFulfilled]"
  by (simp_all add: run_def example_generation_def fresh_record segment_defs
      example_transport_def Let_def)

lemma example_reconnect_eval:
  "connectPromise (run (example_generation @ example_reconnect) fresh) = Some 2"
  "disconnectPromise (run (example_generation @ example_reconnect) fresh) = Some 1"
  "promises (run (example_generation @ example_reconnect) fresh) = [PFulfilled, PFulfilled, PFulfilled]"
  by (simp_all add: run_def example_generation_def example_reconnect_def fresh_record segment_defs
      example_transport_def Let_def)

lemma fresh_with_hooks_fields:
  "disconnectPromise fresh_with_hooks = None" "promises fresh_with_hooks = []"
  "effects fresh_with_hooks = []" "beforeDisconnectFn (hooks fresh_with_hooks) = True"
  "hasDisconnect (transport fresh_with_hooks) = True"
  "thost (transport fresh_with_hooks) = ''core.example:1818''"
  "connectPromise fresh_with_hooks = None"
  by (simp_all add: fresh_with_hooks_eval example_transport_def)

lemma fresh_with_hooks_more:
  "onceDisconnected (transport fresh_with_hooks) = True"
  "isConnectionTerminated fresh_with_hooks = False"
  by (simp_all add: fresh_with_hooks_eval example_transport_def)

lemma example_terminated_fields:
  "disconnectPromise example_terminated = None" "promises example_terminated = []"
  "effects example_terminated =
     [Emit ''disconnected'', PendingCancel (DisconnectedError ''core.example:1818'' None),
      CallBeforeDisconnectFn]"
  "beforeDisconnectFn (hooks example_terminated) = True"
  "hasDisconnect (transport example_terminated) = True"
  "thost (transport example_terminated) = ''core.example:1818''"
  "onceDisconnected (transport example_terminated) = False"
  "isConnectionTerminated example_terminated = True"
  by (simp_all add: example_terminated_def run_def fresh_with_hooks_eval segment_defs
      example_transport_def Let_def)

lemma example_two_hook_requests_eval:
  "pendingMessages (run example_two_hook_requests fresh_with_hooks) =
     \<lparr> lastId = 2, pendingById = [(''1'', True), (''2'', True)], completions = [] \<rparr>"
  "connectMessageId (run example_two_hook_requests fresh_with_hooks) = Some ''2''"
  "disconnectMessageId (run example_two_hook_requests fresh_with_hooks) = None"
  "didAutoConnect (run example_two_hook_requests fresh_with_hooks) = False"
  "isConnectionTerminated (run example_two_hook_requests fresh_with_hooks) = False"
  "disconnectPromise (run example_two_hook_requests fresh_with_hooks) = None"
  "thost (transport (run example_two_hook_requests fresh_with_hooks)) = ''core.example:1818''"
  by (simp_all add: example_two_hook_requests_def run_def fresh_with_hooks_eval segment_defs
      sendRequest_enter_def sendRequest_send_def pm_create_def example_transport_def Let_def
      string_of_nat_1 string_of_nat_2 numeral_2_eq_2)

section \<open>What each segment leaves unchanged\<close>

lemma onResponse_frame:
  "disconnectPromise (onResponse m c) = disconnectPromise c"
  "connectPromise (onResponse m c) = connectPromise c"
  "isConnectionTerminated (onResponse m c) = isConnectionTerminated c"
  "transport (onResponse m c) = transport c"
  "promises (onResponse m c) = promises c"
  "effects (onResponse m c) = effects c"
  by (simp_all add: onResponse_def Let_def split: response_data.splits)

lemma settle_promise_frame:
  "disconnectPromise (settle_promise p v c) = disconnectPromise c"
  "connectPromise (settle_promise p v c) = connectPromise c"
  "isConnectionTerminated (settle_promise p v c) = isConnectionTerminated c"
  "transport (settle_promise p v c) = transport c"
  "effects (settle_promise p v c) = effects c"
  "length (promises (settle_promise p v c)) = length (promises c)"
  by (simp_all add: settle_promise_def)

lemma do_effect_frame:
  "disconnectPromise (do_effect e c) = disconnectPromise c"
  "connectPromise (do_effect e c) = connectPromise c"
  "isConnectionTerminated (do_effect e c) = isConnectionTerminated c"
  "transport (do_effect e c) = transport c"
  "promises (do_effect e c) = promises c"
  by (simp_all add: do_effect_def)

lemma connect_tail_frame:
  "disconnectPromise (snd (connect_return c)) = disconnectPromise c"
  "isConnectionTerminated (snd (connect_return c)) = isConnectionTerminated c"
  "onceDisconnected (transport (snd (connect_return c))) = onceDisconnected (transport c)"
  "disconnectPromise (snd (connect_catch e c)) = disconnectPromise c"
  "isConnectionTerminated (snd (connect_catch e c)) = isConnectionTerminated c"
  "onceDisconnected (transport (snd (connect_catch e c))) = onceDisconnected (transport c)"
  "disconnectPromise (snd (connect_finish c)) = disconnectPromise c"
  "isConnectionTerminated (snd (connect_finish c)) = isConnectionTerminated c"
  "onceDisconnected (transport (snd (connect_finish c))) = onceDisconnected (transport c)"
  by (simp_all add: connect_return_def connect_catch_def connect_finish_def Let_def
      reject_promise_def resolve_promise_def settle_promise_frame do_effect_frame
      split: option.splits)

lemma connect_frame:
  "disconnectPromise (snd (connect_enter a t n c)) = disconnectPromise c"
  "isConnectionTerminated (snd (connect_enter a t n c)) = isConnectionTerminated c"
  "onceDisconnected (transport (snd (connect_enter a t n c))) = onceDisconnected (transport c)"
  "disconnectPromise (snd (connect_after_transport r c)) = disconnectPromise c"
  "isConnectionTerminated (snd (connect_after_transport r c)) = isConnectionTerminated c"
  "onceDisconnected (transport (snd (connect_after_transport r c))) = onceDisconnected (transport c)"
  "disconnectPromise (snd (connect_after_hook r c)) = disconnectPromise c"
  "isConnectionTerminated (snd (connect_after_hook r c)) = isConnectionTerminated c"
  "onceDisconnected (transport (snd (connect_after_hook r c))) = onceDisconnected (transport c)"
  by (simp_all add: connect_enter_def connect_after_transport_def connect_after_hook_def
      connect_tail_frame new_Resolvable_def do_effect_frame Let_def
      split: option.splits settle.splits)

lemma disconnect_finally_frame:
  "disconnectPromise (snd (disconnect_finally p t c)) = disconnectPromise c"
  "isConnectionTerminated (snd (disconnect_finally p t c)) = isConnectionTerminated c"
  "onceDisconnected (transport (snd (disconnect_finally p t c))) = onceDisconnected (transport c)"
  by (simp_all add: disconnect_finally_def resolve_promise_def settle_promise_frame Let_def
      split: option.splits)

lemma cancel_pending_frame:
  "disconnectPromise (cancel_pending e c) = disconnectPromise c"
  "connectPromise (cancel_pending e c) = connectPromise c"
  "isConnectionTerminated (cancel_pending e c) = isConnectionTerminated c"
  "transport (cancel_pending e c) = transport c"
  "promises (cancel_pending e c) = promises c"
  by (simp_all add: cancel_pending_def do_effect_def)

lemma call_frame:
  "disconnectPromise (call_beforeDisconnectFn c) = disconnectPromise c"
  "connectPromise (call_beforeDisconnectFn c) = connectPromise c"
  "isConnectionTerminated (call_beforeDisconnectFn c) = isConnectionTerminated c"
  "transport (call_beforeDisconnectFn c) = transport c"
  "promises (call_beforeDisconnectFn c) = promises c"
  "disconnectPromise (call_transport_disconnect c) = disconnectPromise c"
  "connectPromise (call_transport_disconnect c) = connectPromise c"
  "isConnectionTerminated (call_transport_disconnect c) = isConnectionTerminated c"
  "transport (call_transport_disconnect c) = transport c"
  "promises (call_transport_disconnect c) = promises c"
  by (simp_all add: call_beforeDisconnectFn_def call_transport_disconnect_def do_effect_def)

lemma sendRequest_send_frame:
  "disconnectPromise (snd (sendRequest_send a b pl n c)) = disconnectPromise c"
  "isConnectionTerminated (snd (sendRequest_send a b pl n c)) = isConnectionTerminated c"
  "onceDisconnected (transport (snd (sendRequest_send a b pl n c))) = onceDisconnected (transport c)"
  by (simp_all add: sendRequest_send_def Let_def split_beta do_effect_frame)

lemma sendRequest_frame:
  "disconnectPromise (snd (sendRequest_enter pl n c)) = disconnectPromise c"
  "isConnectionTerminated (snd (sendRequest_enter pl n c)) = isConnectionTerminated c"
  "onceDisconnected (transport (snd (sendRequest_enter pl n c))) = onceDisconnected (transport c)"
  "disconnectPromise (snd (sendRequest_after_connect r pl n c)) = disconnectPromise c"
  "isConnectionTerminated (snd (sendRequest_after_connect r pl n c)) = isConnectionTerminated c"
  "onceDisconnected (transport (snd (sendRequest_after_connect r pl n c))) = onceDisconnected (transport c)"
  "disconnectPromise (snd (sendRequest_settled a b i rs c)) = disconnectPromise c"
  "isConnectionTerminated (snd (sendRequest_settled a b i rs c)) = isConnectionTerminated c"
  "onceDisconnected (transport (snd (sendRequest_settled a b i rs c))) = onceDisconnected (transport c)"
  by (simp_all add: sendRequest_enter_def sendRequest_after_connect_def sendRequest_settled_def
      sendRequest_send_frame connect_frame Let_def split_beta
      split: settle.splits response_settle.splits)

lemma respond_frame:
  "disconnectPromise (respond_to_connect c) = disconnectPromise c"
  "connectPromise (respond_to_connect c) = connectPromise c"
  "isConnectionTerminated (respond_to_connect c) = isConnectionTerminated c"
  "transport (respond_to_connect c) = transport c"
  "promises (respond_to_connect c) = promises c"
  "disconnectPromise (respond_to_disconnect c) = disconnectPromise c"
  "connectPromise (respond_to_disconnect c) = connectPromise c"
  "isConnectionTerminated (respond_to_disconnect c) = isConnectionTerminated c"
  "transport (respond_to_disconnect c) = transport c"
  "promises (respond_to_disconnect c) = promises c"
  by (simp_all add: respond_to_connect_eq respond_to_disconnect_eq)

lemma terminated_frame:
  "disconnectPromise (snd (onConnectionTerminated_enter c)) = disconnectPromise c"
  "isConnectionTerminated c \<Longrightarrow> isConnectionTerminated (snd (onConnectionTerminated_enter c))"
  "onceDisconnected (transport (snd (onConnectionTerminated_enter c))) = onceDisconnected (transport c)"
  "disconnectPromise (snd (onConnectionTerminated_after_hook r c)) = disconnectPromise c"
  "isConnectionTerminated (snd (onConnectionTerminated_after_hook r c)) = isConnectionTerminated c"
  "onceDisconnected (transport (snd (onConnectionTerminated_after_hook r c))) = onceDisconnected (transport c)"
  "disconnectPromise (snd (transport_disconnected c)) = disconnectPromise c"
  "isConnectionTerminated c \<Longrightarrow> isConnectionTerminated (snd (transport_disconnected c))"
  "\<not> onceDisconnected (transport c) \<Longrightarrow> \<not> onceDisconnected (transport (snd (transport_disconnected c)))"
  by (simp_all add: onConnectionTerminated_enter_def onConnectionTerminated_after_hook_def
      transport_disconnected_def Let_def call_frame cancel_pending_frame respond_frame
      do_effect_frame split: settle.splits)

lemma disconnect_teardown_end_frame:
  "disconnectPromise (disconnect_teardown_end c) = disconnectPromise c"
  "connectPromise (disconnect_teardown_end c) = None"
  "isConnectionTerminated c \<Longrightarrow> isConnectionTerminated (disconnect_teardown_end c)"
  "\<not> onceDisconnected (transport c) \<Longrightarrow> \<not> onceDisconnected (transport (disconnect_teardown_end c))"
proof -
  let ?d = "do_effect (TransportEmit ''disconnected'')
              (c\<lparr> transport := (transport c)\<lparr> isConnected := False \<rparr> \<rparr>)"
  show "disconnectPromise (disconnect_teardown_end c) = disconnectPromise c"
    by (simp add: disconnect_teardown_end_def Let_def do_effect_frame terminated_frame)
  show "connectPromise (disconnect_teardown_end c) = None"
    by (simp add: disconnect_teardown_end_def Let_def)
  have "isConnectionTerminated c \<Longrightarrow> isConnectionTerminated (snd (transport_disconnected ?d))"
    by (rule terminated_frame(8)) (simp add: do_effect_frame)
  then show "isConnectionTerminated c \<Longrightarrow> isConnectionTerminated (disconnect_teardown_end c)"
    by (simp add: disconnect_teardown_end_def Let_def do_effect_frame)
  have "\<not> onceDisconnected (transport c) \<Longrightarrow>
        \<not> onceDisconnected (transport (snd (transport_disconnected ?d)))"
    by (rule terminated_frame(9)) (simp add: do_effect_frame)
  then show "\<not> onceDisconnected (transport c) \<Longrightarrow>
             \<not> onceDisconnected (transport (disconnect_teardown_end c))"
    by (simp add: disconnect_teardown_end_def Let_def do_effect_frame)
qed

lemma disconnect_frame:
  "isConnectionTerminated (snd (disconnect_enter f n c)) = isConnectionTerminated c"
  "onceDisconnected (transport (snd (disconnect_enter f n c))) = onceDisconnected (transport c)"
  "disconnectPromise (snd (disconnect_after_hook p r c)) = disconnectPromise c"
  "isConnectionTerminated (snd (disconnect_after_hook p r c)) = isConnectionTerminated c"
  "onceDisconnected (transport (snd (disconnect_after_hook p r c))) = onceDisconnected (transport c)"
  "disconnectPromise (snd (disconnect_after_transport p r c)) = disconnectPromise c"
  by (simp_all add: disconnect_enter_def disconnect_after_hook_def disconnect_after_transport_def
      disconnect_finally_frame disconnect_teardown_end_frame new_Resolvable_def do_effect_frame
      cancel_pending_frame call_frame Let_def
      split: option.splits settle.splits)

lemma disconnect_after_transport_latch:
  "isConnectionTerminated c \<Longrightarrow> isConnectionTerminated (snd (disconnect_after_transport p r c))"
  "\<not> onceDisconnected (transport c) \<Longrightarrow>
   \<not> onceDisconnected (transport (snd (disconnect_after_transport p r c)))"
  by (simp_all add: disconnect_after_transport_def disconnect_finally_frame
      disconnect_teardown_end_frame split: settle.splits)

lemma disconnect_enter_keeps:
  "disconnectPromise c = Some p \<Longrightarrow> disconnectPromise (snd (disconnect_enter f n c)) = Some p"
  by (simp add: disconnect_enter_def)

lemma onMessage_frame:
  "disconnectPromise (onMessage f c) = disconnectPromise c"
  "isConnectionTerminated (onMessage f c) = isConnectionTerminated c"
  "transport (onMessage f c) = transport c"
  by (cases f; simp add: onResponse_frame onEvent_def do_effect_frame)+

lemma step_keeps_disconnectPromise:
  "disconnectPromise c = Some p \<Longrightarrow> disconnectPromise (step c ev) = Some p"
  by (cases ev)
     (simp_all add: connect_frame disconnect_frame disconnect_enter_keeps sendRequest_frame
        terminated_frame onMessage_frame)

lemma run_keeps_disconnectPromise:
  "disconnectPromise c = Some p \<Longrightarrow> disconnectPromise (run evs c) = Some p"
  unfolding run_def
  by (induction evs arbitrary: c) (simp_all add: step_keeps_disconnectPromise)

lemma step_keeps_latch:
  "isConnectionTerminated c \<Longrightarrow> isConnectionTerminated (step c ev)"
  by (cases ev)
     (simp_all add: connect_frame disconnect_frame disconnect_after_transport_latch
        sendRequest_frame terminated_frame onMessage_frame)

lemma step_keeps_unregistered:
  "\<not> onceDisconnected (transport c) \<Longrightarrow> \<not> onceDisconnected (transport (step c ev))"
  by (cases ev)
     (simp_all add: connect_frame disconnect_frame disconnect_after_transport_latch
        sendRequest_frame terminated_frame onMessage_frame)

lemma run_keeps_latch:
  "isConnectionTerminated c \<Longrightarrow> isConnectionTerminated (run evs c)"
  unfolding run_def
  by (induction evs arbitrary: c) (simp_all add: step_keeps_latch)

lemma run_keeps_unregistered:
  "\<not> onceDisconnected (transport c) \<Longrightarrow> \<not> onceDisconnected (transport (run evs c))"
  unfolding run_def
  by (induction evs arbitrary: c) (simp_all add: step_keeps_unregistered)

section \<open>Promises named by the state stay in the store\<close>

lemma in_store_append: "in_store x ps \<Longrightarrow> in_store x (ps @ qs)"
  by (cases x) simp_all

lemma in_store_settle:
  "in_store x (promises (settle_promise q v c)) = in_store x (promises c)"
  by (cases x) (simp_all add: settle_promise_frame)

lemma promises_named_connect_tail:
  assumes "promises_named c"
  shows "promises_named (snd (connect_return c))" "promises_named (snd (connect_catch e c))"
    "promises_named (snd (connect_finish c))"
  using assms
  by (auto simp: connect_return_def connect_catch_def connect_finish_def Let_def
      reject_promise_def resolve_promise_def promises_named_def settle_promise_frame
      in_store_settle do_effect_def split: option.splits)

lemma promises_named_connect:
  assumes "promises_named c"
  shows "promises_named (snd (connect_enter a t n c))"
    "promises_named (snd (connect_after_transport r c))"
    "promises_named (snd (connect_after_hook r c))"
proof -
  show "promises_named (snd (connect_enter a t n c))"
    using assms promises_named_connect_tail(1)[OF assms]
    by (auto simp: connect_enter_def new_Resolvable_def Let_def do_effect_def promises_named_def
        in_store_append)
  have "promises_named (do_effect CallAfterConnectFn (c\<lparr> isSendingConnect := True \<rparr>))"
    using assms by (simp add: promises_named_def do_effect_def)
  then show "promises_named (snd (connect_after_transport r c))"
    using promises_named_connect_tail[OF assms]
    by (simp add: connect_after_transport_def split: settle.splits option.splits)
  have "promises_named (c\<lparr> isSendingConnect := False \<rparr>)"
    using assms by (simp add: promises_named_def)
  from promises_named_connect_tail(3)[OF this] show "promises_named (snd (connect_after_hook r c))"
    using promises_named_connect_tail(2)[OF assms]
    by (simp add: connect_after_hook_def split: settle.splits)
qed

lemma promises_named_sendRequest:
  assumes "promises_named c"
  shows "promises_named (snd (sendRequest_enter pl n c))"
    "promises_named (snd (sendRequest_after_connect r pl n c))"
    "promises_named (snd (sendRequest_settled a b i rs c))"
proof -
  have send: "promises_named (snd (sendRequest_send x y pl n c))" for x y
    using assms by (simp add: promises_named_def sendRequest_send_def Let_def split_beta do_effect_def)
  show "promises_named (snd (sendRequest_enter pl n c))"
    using send promises_named_connect(1)[OF assms] by (simp add: sendRequest_enter_def Let_def)
  show "promises_named (snd (sendRequest_after_connect r pl n c))"
    using send assms by (simp add: sendRequest_after_connect_def split: settle.splits)
  show "promises_named (snd (sendRequest_settled a b i rs c))"
    using assms
    by (simp add: promises_named_def sendRequest_settled_def Let_def split_beta
        split: response_settle.splits)
qed

lemma promises_named_terminated:
  assumes "promises_named c"
  shows "promises_named (snd (onConnectionTerminated_enter c))"
    "promises_named (snd (onConnectionTerminated_after_hook r c))"
    "promises_named (snd (transport_disconnected c))"
    "promises_named (onMessage f c)"
proof -
  have 1: "promises_named (snd (onConnectionTerminated_enter c))" if "promises_named c" for c
    using that
    by (simp add: promises_named_def onConnectionTerminated_enter_def Let_def call_frame
        cancel_pending_frame respond_frame do_effect_frame)
  show "promises_named (snd (onConnectionTerminated_enter c))" using 1 assms .
  show "promises_named (snd (onConnectionTerminated_after_hook r c))"
    using assms by (simp add: promises_named_def onConnectionTerminated_after_hook_def split: settle.splits)
  show "promises_named (snd (transport_disconnected c))"
    using assms 1[of "c\<lparr> transport := (transport c)\<lparr> onceDisconnected := False \<rparr> \<rparr>"]
    by (simp add: transport_disconnected_def promises_named_def)
  show "promises_named (onMessage f c)"
    using assms by (cases f) (simp_all add: promises_named_def onResponse_frame onEvent_def do_effect_frame)
qed

lemma promises_named_teardown_end:
  assumes "promises_named c"
  shows "promises_named (disconnect_teardown_end c)"
proof -
  let ?d = "do_effect (TransportEmit ''disconnected'')
              (c\<lparr> transport := (transport c)\<lparr> isConnected := False \<rparr> \<rparr>)"
  have "promises_named ?d"
    using assms by (simp add: promises_named_def do_effect_def)
  from promises_named_terminated(3)[OF this] show ?thesis
    by (cases "disconnectPromise (snd (transport_disconnected ?d))")
       (simp_all add: disconnect_teardown_end_def Let_def promises_named_def do_effect_def)
qed

lemma promises_named_finally:
  assumes "promises_named c"
  shows "promises_named (snd (disconnect_finally q t c))"
  using assms
  by (simp add: disconnect_finally_def Let_def promises_named_def resolve_promise_def
      settle_promise_frame in_store_settle split: option.splits)

lemma promises_named_disconnect:
  assumes "promises_named c"
  shows "promises_named (snd (disconnect_enter f n c))"
    "promises_named (snd (disconnect_after_hook q r c))"
    "promises_named (snd (disconnect_after_transport q r c))"
proof -
  show "promises_named (snd (disconnect_enter f n c))"
    using assms
    by (auto simp: disconnect_enter_def new_Resolvable_def Let_def promises_named_def
        cancel_pending_def call_beforeDisconnectFn_def do_effect_def in_store_append
        split: option.splits)
  have "promises_named (call_transport_disconnect (c\<lparr> isSendingDisconnect := False \<rparr>))"
    using assms by (simp add: promises_named_def call_transport_disconnect_def do_effect_def)
  then show "promises_named (snd (disconnect_after_hook q r c))"
    using promises_named_finally[OF assms]
    by (simp add: disconnect_after_hook_def Let_def split: settle.splits)
  show "promises_named (snd (disconnect_after_transport q r c))"
    using promises_named_finally[OF assms] promises_named_finally[OF promises_named_teardown_end[OF assms]]
    by (simp add: disconnect_after_transport_def split: settle.splits)
qed

lemma step_promises_named: "promises_named c \<Longrightarrow> promises_named (step c ev)"
  by (cases ev)
     (simp_all add: promises_named_connect promises_named_disconnect promises_named_sendRequest
        promises_named_terminated)

lemma run_promises_named: "promises_named c \<Longrightarrow> promises_named (run evs c)"
  unfolding run_def by (induction evs arbitrary: c) (simp_all add: step_promises_named)

lemma new_promises_named: "promises_named (new_ConnectionToCore t skipConnect)"
  by (simp add: new_ConnectionToCore_def Let_def new_Resolvable_def resolve_promise_def
      promises_named_def settle_promise_def)

section \<open>A promise the controller does not reject\<close>

















section \<open>sendRequest and the automatic connect\<close>

text \<open>
  Claim C1, as the code has it. A \<^verbatim>\<open>sendRequest\<close> entered while neither
  \<^verbatim>\<open>isSendingConnect\<close> nor \<^verbatim>\<open>isSendingDisconnect\<close> is set and no
  \<^verbatim>\<open>connectPromise\<close> exists calls \<^verbatim>\<open>this.connect()\<close> without arguments, so
  \<^verbatim>\<open>isAutoConnect\<close> takes its default: the connect creates the connect promise,
  records the start time and records \<^verbatim>\<open>didAutoConnect = false\<close>.
\<close>

theorem sendRequest_connect_not_auto:
  assumes "\<not> isSendingConnect c" and "\<not> isSendingDisconnect c" and "connectPromise c = None"
  shows "let c' = snd (sendRequest_enter payload now c)
         in didAutoConnect c' = False \<and> connectPromise c' = Some (length (promises c))
            \<and> connectStartTime c' = Some now"
  using assms
  by (simp add: sendRequest_enter_def connect_enter_def new_Resolvable_def do_effect_def Let_def)

theorem sendRequest_connect_not_auto_witness:
  "\<not> isSendingConnect fresh \<and> \<not> isSendingDisconnect fresh \<and> connectPromise fresh = None \<and>
   didAutoConnect (snd (sendRequest_enter example_payload 1 fresh)) = False \<and>
   connectPromise (snd (sendRequest_enter example_payload 1 fresh)) = Some 0"
  using sendRequest_connect_not_auto[of fresh example_payload 1]
  by (simp add: fresh_eval Let_def)

text \<open>
  Claim C1 as stated fails: on a fresh controller the first \<^verbatim>\<open>sendRequest\<close> leaves
  \<^verbatim>\<open>didAutoConnect\<close> false.
\<close>

theorem sendRequest_autoconnect_counterexample:
  "isSendingConnect fresh = False \<and> isSendingDisconnect fresh = False \<and>
   connectPromise fresh = None \<and>
   didAutoConnect (snd (sendRequest_enter example_payload 1 fresh)) = False"
  by (simp add: fresh_eval sendRequest_enter_def connect_enter_def new_Resolvable_def
      do_effect_def Let_def)

section \<open>The disconnect promise over the generations\<close>

text \<open>
  Claim C2, as the code has it. No segment of the controller clears or replaces
  \<^verbatim>\<open>disconnectPromise\<close>: once it is set it is the same promise after every later
  execution, including the end of \<^verbatim>\<open>disconnect\<close> (which resets
  \<^verbatim>\<open>connectPromise\<close> to null) and a new connect cycle. It is therefore created at most
  once in the lifetime of a controller.
\<close>

theorem disconnectPromise_never_cleared:
  assumes "disconnectPromise c = Some p"
  shows "disconnectPromise (run evs c) = Some p"
  using assms by (rule run_keeps_disconnectPromise)

theorem disconnectPromise_never_cleared_witness:
  "disconnectPromise (run example_generation fresh) = Some 1 \<and>
   disconnectPromise (run example_reconnect (run example_generation fresh)) = Some 1"
  using disconnectPromise_never_cleared[of "run example_generation fresh" 1 example_reconnect]
  by (simp add: example_generation_eval)

text \<open>
  Claim C2 as stated fails: after a connect and a disconnect that both ran to their end
  (the connect promise is null again, the disconnect promise is fulfilled), a new connect
  creates and resolves a new connect promise, and the disconnect promise of the first
  generation is still present.
\<close>

theorem disconnectPromise_survives_reconnect_counterexample:
  "connectPromise (run example_generation fresh) = None \<and>
   promise_at (run example_generation fresh) 1 = PFulfilled \<and>
   connectPromise (run (example_generation @ example_reconnect) fresh) = Some 2 \<and>
   promise_at (run (example_generation @ example_reconnect) fresh) 2 = PFulfilled \<and>
   disconnectPromise (run (example_generation @ example_reconnect) fresh) = Some 1"
  by (simp add: example_generation_eval example_reconnect_eval promise_at_def)

section \<open>Errors in responses\<close>

text \<open>
  Claim C3. For a response frame whose data is an error, \<^verbatim>\<open>onResponse\<close> calls
  \<^verbatim>\<open>reject\<close> on the pending table with the id of the frame and a delivered error.
  The delivered error is the disconnected error naming the transport host exactly when
  the error is disconnect-adjacent (a disconnect promise exists, or its name is
  \<^verbatim>\<open>SessionClosedOrMissingError\<close>, or its \<^verbatim>\<open>isDisconnecting\<close> is \<^verbatim>\<open>true\<close>)
  and its name is neither \<^verbatim>\<open>BrowserLaunchError\<close> nor
  \<^verbatim>\<open>DependenciesMissingError\<close>; otherwise it is the error of the frame. In both cases
  the delivered error has no \<^verbatim>\<open>isDisconnecting\<close> property. When the id has a pending
  entry, that entry is rejected with the delivered error and removed.
\<close>

theorem onResponse_error_remap:
  "let c' = onResponse \<lparr> responseId = i, data = ErrorData e \<rparr> c;
       adjacent = (disconnectPromise c \<noteq> None
                   \<or> name e = ''SessionClosedOrMissingError''
                   \<or> isDisconnecting e = Some True);
       launch = (name e = ''BrowserLaunchError'' \<or> name e = ''DependenciesMissingError'');
       delivered = (if adjacent \<and> \<not> launch
                    then DisconnectedError (thost (transport c)) None
                    else e\<lparr> isDisconnecting := None \<rparr>)
   in pendingMessages c' = pm_reject i delivered (pendingMessages c)
      \<and> isDisconnecting delivered = None
      \<and> (adjacent \<and> \<not> launch \<longrightarrow>
             host delivered = Some (thost (transport c)) \<and> name delivered = ''DisconnectedError'')
      \<and> (pm_has (pendingMessages c) i \<longrightarrow>
             completions (pendingMessages c') =
               completions (pendingMessages c) @ [(i, Rejected delivered)]
             \<and> \<not> pm_has (pendingMessages c') i)"
  by (simp add: onResponse_def Let_def pm_reject_def isBrowserLaunchError_def
      SessionClosedOrMissingError_name_def DisconnectedError_def pm_has_def pm_remove_absent)

theorem onResponse_error_remap_witness:
  "pm_has (pendingMessages example_pending) ''1'' \<and>
   completions (pendingMessages (onResponse \<lparr> responseId = ''1'', data = ErrorData example_marked_error \<rparr> example_pending))
     = [(''1'', Rejected (DisconnectedError ''core.example:1818'' None))]"
proof -
  have h: "pm_has (pendingMessages example_pending) ''1''"
    by (simp add: example_pending_eval pm_has_def)
  have n: "name example_marked_error = ''X''" "isDisconnecting example_marked_error = Some True"
    by (simp_all add: example_marked_error_def)
  have "completions (pendingMessages (onResponse \<lparr> responseId = ''1'', data = ErrorData example_marked_error \<rparr> example_pending))
          = completions (pendingMessages example_pending)
            @ [(''1'', Rejected (DisconnectedError (thost (transport example_pending)) None))]"
    using h onResponse_error_remap[of "''1''" example_marked_error example_pending]
    unfolding Let_def n by (elim conjE) simp
  then show ?thesis
    using h by (simp add: example_pending_eval)
qed

section \<open>Errors in sendRequest\<close>

text \<open>
  Claim C4. When the awaited pair of \<^verbatim>\<open>sendRequest\<close> fails with an error, the pending
  entry is removed with \<^verbatim>\<open>delete\<close>; the call returns the empty value when a disconnect
  promise exists and the error is an instance of \<^verbatim>\<open>CanceledPromiseError\<close>, and throws
  the same error in every other case.
\<close>

theorem sendRequest_settled_error:
  "let (res, c') = sendRequest_settled isConnect isDisconnect i (RejectsWith err) c
   in res = (if disconnectPromise c \<noteq> None \<and> instanceofCanceledPromiseError err
             then Returns None else Throws err)
      \<and> pendingMessages c' = pm_delete i (pendingMessages c)
      \<and> \<not> pm_has (pendingMessages c') i"
  by (simp add: sendRequest_settled_def Let_def pm_delete_def pm_has_def pm_remove_absent)

theorem sendRequest_settled_error_witness:
  "fst (sendRequest_settled False False ''1'' (RejectsWith (DisconnectedError ''core.example:1818'' None))
         (example_pending\<lparr> disconnectPromise := Some 0 \<rparr>)) = Returns None"
  using sendRequest_settled_error[of False False "''1''"
      "DisconnectedError ''core.example:1818'' None" "example_pending\<lparr> disconnectPromise := Some 0 \<rparr>"]
  by (simp add: split_beta DisconnectedError_def)

section \<open>The flags around the hooks\<close>

text \<open>
  Claim C5 fails on the code where a hook throws. \<^verbatim>\<open>connect\<close> sets
  \<^verbatim>\<open>isSendingConnect\<close> before it awaits \<^verbatim>\<open>afterConnectFn\<close> and clears it on the
  next line, inside the \<^verbatim>\<open>try\<close>; when the hook rejects, control goes to the
  \<^verbatim>\<open>catch\<close> block and the flag stays set after \<^verbatim>\<open>connect\<close> has finished. The
  same holds for \<^verbatim>\<open>isSendingDisconnect\<close> in \<^verbatim>\<open>disconnect\<close> (its \<^verbatim>\<open>finally\<close>
  block only resolves the promise) and in \<^verbatim>\<open>onConnectionTerminated\<close>.
\<close>

theorem hook_throw_keeps_flag:
  "isSendingConnect
     (run [CallConnect False 30000 1, ResumeConnectAfterTransport Fulfils,
           ResumeConnectAfterHook (Rejects example_error)] fresh_with_hooks) = True
   \<and> isSendingDisconnect
       (snd (disconnect_exec None 2 [] (Rejects example_error) [] Fulfils fresh_with_hooks)) = True
   \<and> isSendingDisconnect
       (run [TransportDisconnected, ResumeTerminatedAfterHook (Rejects example_error)]
          fresh_with_hooks) = True"
  by (simp add: run_def fresh_with_hooks_eval connect_enter_def connect_after_transport_def
      connect_after_hook_def connect_catch_def connect_return_def new_Resolvable_def
      do_effect_def reject_promise_def settle_promise_def promise_at_def isResolved_def
      hasActiveSessions_def example_transport_def Let_def
      disconnect_exec_def disconnect_enter_def disconnect_after_hook_def disconnect_finally_def
      resolve_promise_def cancel_pending_def call_beforeDisconnectFn_def
      transport_disconnected_def onConnectionTerminated_enter_def
      onConnectionTerminated_after_hook_def respond_to_connect_def respond_to_disconnect_def
      truthy_def)

section \<open>Termination of the transport\<close>

text \<open>
  Claim C6, as the code has it. On the first termination (the latch is not set) the
  latch is set, the controller emits \<^verbatim>\<open>disconnected\<close>, and the pending table receives,
  in order: for a truthy \<^verbatim>\<open>connectMessageId\<close>, \<^verbatim>\<open>resolve(id, null)\<close> when
  \<^verbatim>\<open>didAutoConnect\<close> holds and \<^verbatim>\<open>reject(id, error)\<close> with the disconnected error
  naming the transport host otherwise; for a truthy \<^verbatim>\<open>disconnectMessageId\<close>,
  \<^verbatim>\<open>resolve(id, null)\<close>; then the mass cancellation with the disconnected error.
  The completions this delivers are, in order: for a truthy \<^verbatim>\<open>connectMessageId\<close>
  with a pending entry, \<^verbatim>\<open>null\<close> when \<^verbatim>\<open>didAutoConnect\<close> holds and the
  disconnected error naming the transport host otherwise; for a truthy
  \<^verbatim>\<open>disconnectMessageId\<close> with a pending entry, \<^verbatim>\<open>null\<close>; and for every entry
  that remains and is not internal, the disconnected error naming the transport host.
  The internal entries that remain stay pending.
\<close>

theorem onConnectionTerminated_synthesizes:
  assumes "\<not> isConnectionTerminated c"
  shows "let c' = snd (onConnectionTerminated_enter c);
             gone = DisconnectedError (thost (transport c)) None;
             pm = pendingMessages c;
             cid = connectMessageId c;
             did = disconnectMessageId c;
             pm1 = (if truthy cid
                    then (if didAutoConnect c then pm_resolve (the cid) Null pm
                          else pm_reject (the cid) gone pm)
                    else pm);
             pm2 = (if truthy did then pm_resolve (the did) Null pm1 else pm1);
             es1 = (if truthy cid then pm_remove (the cid) (pendingById pm) else pendingById pm);
             es2 = (if truthy did then pm_remove (the did) es1 else es1)
         in isConnectionTerminated c'
            \<and> pendingMessages c' = pm_cancel gone pm2
            \<and> effects c' =
                effects c @ [Emit ''disconnected'', PendingCancel gone]
                @ (if beforeDisconnectFn (hooks c) then [CallBeforeDisconnectFn] else [])
            \<and> pendingById (pendingMessages c') = filter (\<lambda>en. snd en) es2
            \<and> completions (pendingMessages c') =
                completions pm
                @ (if truthy cid \<and> the cid \<in> fst ` set (pendingById pm)
                   then [(the cid, if didAutoConnect c then Resolved Null else Rejected gone)]
                   else [])
                @ (if truthy did \<and> the did \<in> fst ` set es1 then [(the did, Resolved Null)] else [])
                @ map (\<lambda>en. (fst en, Rejected gone)) (filter (\<lambda>en. \<not> snd en) es2)"
  using assms
  by (simp add: onConnectionTerminated_enter_def Let_def cancel_pending_def do_effect_def
      call_beforeDisconnectFn_def respond_to_connect_eq respond_to_disconnect_eq
      pm_reject_fields pm_resolve_fields pm_cancel_fields)

theorem onConnectionTerminated_synthesizes_witness:
  "\<not> isConnectionTerminated (example_handshake\<lparr> didAutoConnect := True \<rparr>) \<and>
   completions (pendingMessages
       (snd (onConnectionTerminated_enter (example_handshake\<lparr> didAutoConnect := True \<rparr>)))) =
     [(''1'', Resolved Null),
      (''2'', Rejected (DisconnectedError ''core.example:1818'' None))] \<and>
   pendingById (pendingMessages
       (snd (onConnectionTerminated_enter (example_handshake\<lparr> didAutoConnect := True \<rparr>)))) = [] \<and>
   \<not> isConnectionTerminated example_handshake \<and>
   completions (pendingMessages (snd (onConnectionTerminated_enter example_handshake))) =
     [(''1'', Rejected (DisconnectedError ''core.example:1818'' None)),
      (''2'', Rejected (DisconnectedError ''core.example:1818'' None))]"
proof -
  have h: "\<not> isConnectionTerminated example_handshake"
    by (simp add: example_handshake_eval)
  have h': "\<not> isConnectionTerminated (example_handshake\<lparr> didAutoConnect := True \<rparr>)"
    by (simp add: example_handshake_eval)
  have a: "completions (pendingMessages (snd (onConnectionTerminated_enter example_handshake))) =
     [(''1'', Rejected (DisconnectedError ''core.example:1818'' None)),
      (''2'', Rejected (DisconnectedError ''core.example:1818'' None))]"
    using h onConnectionTerminated_synthesizes[OF h]
    unfolding Let_def
    by (elim conjE) (simp add: example_handshake_eval truthy_def pm_remove_def)
  have b: "completions (pendingMessages
       (snd (onConnectionTerminated_enter (example_handshake\<lparr> didAutoConnect := True \<rparr>)))) =
     [(''1'', Resolved Null),
      (''2'', Rejected (DisconnectedError ''core.example:1818'' None))] \<and>
   pendingById (pendingMessages
       (snd (onConnectionTerminated_enter (example_handshake\<lparr> didAutoConnect := True \<rparr>)))) = []"
    using h' onConnectionTerminated_synthesizes[OF h']
    unfolding Let_def
    by (elim conjE) (simp add: example_handshake_eval truthy_def pm_remove_def)
  show ?thesis using a b h h' by simp
qed

text \<open>
  Claim C6 as stated fails in its last part. When \<^verbatim>\<open>afterConnectFn\<close> has sent two
  requests that are both in flight, \<^verbatim>\<open>connectMessageId\<close> names the second only: the
  termination answers the second, and the mass cancellation leaves the first, which is
  internal, pending.
\<close>

theorem onConnectionTerminated_internal_counterexample:
  "isConnectionTerminated (run example_two_hook_requests fresh_with_hooks) = False \<and>
   pendingById (pendingMessages (run example_two_hook_requests fresh_with_hooks)) =
     [(''1'', True), (''2'', True)] \<and>
   connectMessageId (run example_two_hook_requests fresh_with_hooks) = Some ''2'' \<and>
   completions (pendingMessages
       (snd (onConnectionTerminated_enter (run example_two_hook_requests fresh_with_hooks)))) =
     [(''2'', Rejected (DisconnectedError ''core.example:1818'' None))] \<and>
   pendingById (pendingMessages
       (snd (onConnectionTerminated_enter (run example_two_hook_requests fresh_with_hooks)))) =
     [(''1'', True)]"
  by (simp add: example_two_hook_requests_eval onConnectionTerminated_enter_def Let_def
      cancel_pending_def do_effect_def call_beforeDisconnectFn_def respond_to_connect_eq
      respond_to_disconnect_eq pm_reject_fields pm_resolve_fields pm_cancel_fields truthy_def
      pm_remove_def)

lemma onConnectionTerminated_enter_latched:
  "isConnectionTerminated c \<Longrightarrow> onConnectionTerminated_enter c = (Returns (), c)"
  by (simp add: onConnectionTerminated_enter_def)

lemma onConnectionTerminated_enter_sets_latch:
  "isConnectionTerminated (snd (onConnectionTerminated_enter c))"
  by (simp add: onConnectionTerminated_enter_def Let_def call_frame cancel_pending_frame
      respond_frame do_effect_frame)

lemma transport_disconnected_unregisters:
  "\<not> onceDisconnected (transport (snd (transport_disconnected c)))"
  by (simp add: transport_disconnected_def terminated_frame)

lemma transport_disconnected_unregistered:
  "\<not> onceDisconnected (transport c) \<Longrightarrow> transport_disconnected c = (Returns (), c)"
  by (simp add: transport_disconnected_def)

lemma transport_disconnected_sets_latch:
  "onceDisconnected (transport c) \<Longrightarrow> isConnectionTerminated (snd (transport_disconnected c))"
  by (simp add: transport_disconnected_def onConnectionTerminated_enter_sets_latch)

text \<open>
  Claim C10. Once \<^verbatim>\<open>onConnectionTerminated\<close> has been entered, the latch
  \<^verbatim>\<open>isConnectionTerminated\<close> is set after every later execution \<open>evs\<close> of the
  controller (a whole disconnect and a new connect among them), and a further call
  returns at once and leaves the state as it is. Once the transport has emitted
  \<^verbatim>\<open>disconnected\<close>, the once-only listener is no longer registered after every later
  execution, and a further signal reaches nothing; when the listener was registered at the
  first signal, the latch is set as well.
\<close>

theorem termination_once:
  "(let c2 = run evs (snd (onConnectionTerminated_enter c))
    in isConnectionTerminated c2 \<and> onConnectionTerminated_enter c2 = (Returns (), c2))
   \<and> (let c2 = run evs (snd (transport_disconnected c))
       in \<not> onceDisconnected (transport c2) \<and> transport_disconnected c2 = (Returns (), c2)
          \<and> (onceDisconnected (transport c) \<longrightarrow>
                isConnectionTerminated c2 \<and> onConnectionTerminated_enter c2 = (Returns (), c2)))"
proof -
  have a: "isConnectionTerminated (run evs (snd (onConnectionTerminated_enter c)))"
    by (rule run_keeps_latch[OF onConnectionTerminated_enter_sets_latch])
  have b: "\<not> onceDisconnected (transport (run evs (snd (transport_disconnected c))))"
    by (rule run_keeps_unregistered[OF transport_disconnected_unregisters])
  have c: "isConnectionTerminated (run evs (snd (transport_disconnected c)))"
    if "onceDisconnected (transport c)"
    by (rule run_keeps_latch[OF transport_disconnected_sets_latch[OF that]])
  show ?thesis
    using a b c
    by (simp add: Let_def onConnectionTerminated_enter_latched transport_disconnected_unregistered)
qed

theorem termination_once_witness:
  "onceDisconnected (transport fresh) \<and>
   isConnectionTerminated
     (run (example_generation @ example_reconnect) (snd (transport_disconnected fresh))) \<and>
   transport_disconnected
     (run (example_generation @ example_reconnect) (snd (transport_disconnected fresh))) =
     (Returns (), run (example_generation @ example_reconnect) (snd (transport_disconnected fresh))) \<and>
   onConnectionTerminated_enter
     (run (example_generation @ example_reconnect) (snd (transport_disconnected fresh))) =
     (Returns (), run (example_generation @ example_reconnect) (snd (transport_disconnected fresh)))"
proof -
  have h: "onceDisconnected (transport fresh)"
    by (simp add: fresh_record)
  from termination_once[of "example_generation @ example_reconnect" fresh] h show ?thesis
    by (simp add: Let_def)
qed

section \<open>disconnect\<close>

lemma disconnect_enter_reentrant:
  "disconnectPromise c = Some p \<Longrightarrow>
   disconnect_enter f n c = (Returns (Some p), c\<lparr> disconnectStartTime := Some n, disconnectError := f \<rparr>)"
  by (simp add: disconnect_enter_def)

lemma disconnect_calls_reentrant:
  assumes "disconnectPromise c = Some p"
  shows "fst (disconnect_calls xs c) = replicate (length xs) (Returns (Some p))
         \<and> (\<exists>t e. snd (disconnect_calls xs c) = c\<lparr> disconnectStartTime := t, disconnectError := e \<rparr>)"
  using assms
proof (induction xs arbitrary: c)
  case Nil
  have "c = c\<lparr> disconnectStartTime := disconnectStartTime c, disconnectError := disconnectError c \<rparr>"
    by simp
  then show ?case by (metis disconnect_calls.simps(1) fst_conv snd_conv list.size(3) replicate_0)
next
  case (Cons x xs)
  obtain f n where x: "x = (f, n)" by (cases x)
  let ?c1 = "c\<lparr> disconnectStartTime := Some n, disconnectError := f \<rparr>"
  have dp: "disconnectPromise ?c1 = Some p" using Cons.prems by simp
  from Cons.IH[OF dp] obtain t e where
    r: "fst (disconnect_calls xs ?c1) = replicate (length xs) (Returns (Some p))"
    and s: "snd (disconnect_calls xs ?c1) = ?c1\<lparr> disconnectStartTime := t, disconnectError := e \<rparr>"
    by blast
  have "snd (disconnect_calls (x # xs) c) = c\<lparr> disconnectStartTime := t, disconnectError := e \<rparr>"
    using s by (simp add: x disconnect_enter_reentrant[OF Cons.prems] split_beta)
  moreover have "fst (disconnect_calls (x # xs) c) = replicate (length (x # xs)) (Returns (Some p))"
    using r by (simp add: x disconnect_enter_reentrant[OF Cons.prems] split_beta)
  ultimately show ?case by blast
qed


lemma disconnect_calls_fields:
  assumes "disconnectPromise c = Some p"
  shows "fst (disconnect_calls xs c) = replicate (length xs) (Returns (Some p))"
    and "effects (snd (disconnect_calls xs c)) = effects c"
    and "disconnectPromise (snd (disconnect_calls xs c)) = Some p"
    and "transport (snd (disconnect_calls xs c)) = transport c"
    and "hooks (snd (disconnect_calls xs c)) = hooks c"
    and "isConnectionTerminated (snd (disconnect_calls xs c)) = isConnectionTerminated c"
proof -
  from disconnect_calls_reentrant[OF assms, of xs] obtain t e where
    r: "fst (disconnect_calls xs c) = replicate (length xs) (Returns (Some p))"
    and s: "snd (disconnect_calls xs c) = c\<lparr> disconnectStartTime := t, disconnectError := e \<rparr>"
    by blast
  show "fst (disconnect_calls xs c) = replicate (length xs) (Returns (Some p))" by (rule r)
  show "effects (snd (disconnect_calls xs c)) = effects c" by (simp add: s)
  show "disconnectPromise (snd (disconnect_calls xs c)) = Some p" by (simp add: s assms)
  show "transport (snd (disconnect_calls xs c)) = transport c" by (simp add: s)
  show "hooks (snd (disconnect_calls xs c)) = hooks c" by (simp add: s)
  show "isConnectionTerminated (snd (disconnect_calls xs c)) = isConnectionTerminated c"
    by (simp add: s)
qed

lemma disconnect_enter_first:
  assumes "disconnectPromise c = None"
  shows "fst (disconnect_enter f n c) = Suspends (length (promises c))"
    and "effects (snd (disconnect_enter f n c)) =
           effects c @ [LogStats ''ConnectionToCore.Disconnecting'',
                        PendingCancel (DisconnectedError (thost (transport c)) None)]
           @ (if beforeDisconnectFn (hooks c) then [CallBeforeDisconnectFn] else [])"
    and "disconnectPromise (snd (disconnect_enter f n c)) = Some (length (promises c))"
    and "transport (snd (disconnect_enter f n c)) = transport c"
    and "hooks (snd (disconnect_enter f n c)) = hooks c"
    and "isConnectionTerminated (snd (disconnect_enter f n c)) = isConnectionTerminated c"
  using assms
  by (simp_all add: disconnect_enter_def new_Resolvable_def Let_def cancel_pending_def
      call_beforeDisconnectFn_def do_effect_def)

lemma disconnect_after_hook_fields:
  "fst (disconnect_after_hook p (Rejects e) d) = Throws e"
  "effects (snd (disconnect_after_hook p (Rejects e) d)) = effects d"
  "fst (disconnect_after_hook p Fulfils d) = Suspends p"
  "effects (snd (disconnect_after_hook p Fulfils d)) =
     effects d @ (if hasDisconnect (transport d) then [TransportDisconnect] else [])"
  "transport (snd (disconnect_after_hook p Fulfils d)) = transport d"
  "hooks (snd (disconnect_after_hook p Fulfils d)) = hooks d"
  "isConnectionTerminated (snd (disconnect_after_hook p Fulfils d)) = isConnectionTerminated d"
  by (simp_all add: disconnect_after_hook_def disconnect_finally_def Let_def
      resolve_promise_def settle_promise_frame call_transport_disconnect_def do_effect_def)

lemma transport_disconnected_effects:
  "effects (snd (transport_disconnected d)) =
     effects d
     @ (if onceDisconnected (transport d) \<and> \<not> isConnectionTerminated d
        then [Emit ''disconnected'', PendingCancel (DisconnectedError (thost (transport d)) None)]
             @ (if beforeDisconnectFn (hooks d) then [CallBeforeDisconnectFn] else [])
        else [])"
  by (simp add: transport_disconnected_def onConnectionTerminated_enter_def Let_def
      cancel_pending_def call_beforeDisconnectFn_def do_effect_def respond_to_connect_eq
      respond_to_disconnect_eq)

lemma disconnect_teardown_end_effects:
  "effects (disconnect_teardown_end d) =
     effects d @ [TransportEmit ''disconnected'']
     @ (if onceDisconnected (transport d) \<and> \<not> isConnectionTerminated d
        then [Emit ''disconnected'', PendingCancel (DisconnectedError (thost (transport d)) None)]
             @ (if beforeDisconnectFn (hooks d) then [CallBeforeDisconnectFn] else [])
        else [])
     @ [Emit ''disconnected'', LogStats ''ConnectionToCore.Disconnected'']"
  by (simp add: disconnect_teardown_end_def Let_def transport_disconnected_effects do_effect_def)

lemma disconnect_after_transport_fields:
  "fst (disconnect_after_transport p (Rejects e) d) = Throws e"
  "effects (snd (disconnect_after_transport p (Rejects e) d)) = effects d"
  "effects (snd (disconnect_after_transport p Fulfils d)) = effects (disconnect_teardown_end d)"
  by (simp_all add: disconnect_after_transport_def disconnect_finally_def Let_def
      resolve_promise_def settle_promise_frame)

lemma disconnect_concurrent_effects:
  assumes "disconnectPromise c = None"
  shows "let p = length (promises c);
             gone = DisconnectedError (thost (transport c)) None;
             hook = (if beforeDisconnectFn (hooks c) then [CallBeforeDisconnectFn] else []);
             (res, rs, c') = disconnect_concurrent fatalError now rh rt xs1 xs2 xs3 c
         in rs = replicate (length xs1 + length xs2 + length xs3) (Returns (Some p))
            \<and> disconnectPromise c' = Some p
            \<and> effects c' =
                effects c
                @ [LogStats ''ConnectionToCore.Disconnecting'', PendingCancel gone]
                @ hook
                @ (case rh of
                     Rejects e \<Rightarrow> []
                   | Fulfils \<Rightarrow>
                       (if hasDisconnect (transport c) then [TransportDisconnect] else [])
                       @ (case rt of
                            Rejects e \<Rightarrow> []
                          | Fulfils \<Rightarrow>
                              [TransportEmit ''disconnected'']
                              @ (if onceDisconnected (transport c) \<and> \<not> isConnectionTerminated c
                                 then [Emit ''disconnected'', PendingCancel gone] @ hook
                                 else [])
                              @ [Emit ''disconnected'',
                                 LogStats ''ConnectionToCore.Disconnected'']))"
proof -
  define p where "p = length (promises c)"
  define c1 where "c1 = snd (disconnect_enter fatalError now c)"
  have enter: "disconnect_enter fatalError now c = (Suspends p, c1)"
    using disconnect_enter_first(1)[OF assms, of fatalError now]
    by (simp add: c1_def p_def prod_eq_iff)
  note c1 = disconnect_enter_first(2-6)[OF assms, of fatalError now, folded c1_def p_def]
  define d1 where "d1 = snd (disconnect_calls xs1 c1)"
  note d1 = disconnect_calls_fields[OF c1(2), of xs1, folded d1_def]
  have calls1: "disconnect_calls xs1 c1 = (replicate (length xs1) (Returns (Some p)), d1)"
    using d1(1) by (simp add: d1_def prod_eq_iff)
  show ?thesis
  proof (cases rh)
    case (Rejects e)
    define c2 where "c2 = snd (disconnect_after_hook p (Rejects e) d1)"
    have hook: "disconnect_after_hook p (Rejects e) d1 = (Throws e, c2)"
      by (simp add: c2_def prod_eq_iff disconnect_after_hook_fields)
    have c2: "effects c2 = effects d1" "disconnectPromise c2 = Some p"
      by (simp_all add: c2_def disconnect_after_hook_fields disconnect_frame d1)
    note d3 = disconnect_calls_fields(1-3)[OF c2(2), of "xs2 @ xs3"]
    show ?thesis
      using Rejects enter calls1 hook d3 c2 d1 c1
      by (simp add: disconnect_concurrent_def p_def[symmetric] split_beta replicate_add[symmetric]
          Let_def)
  next
    case Fulfils
    define c2 where "c2 = snd (disconnect_after_hook p Fulfils d1)"
    have hook: "disconnect_after_hook p Fulfils d1 = (Suspends p, c2)"
      by (simp add: c2_def prod_eq_iff disconnect_after_hook_fields)
    have c2: "effects c2 = effects d1 @ (if hasDisconnect (transport c) then [TransportDisconnect] else [])"
      "disconnectPromise c2 = Some p" "transport c2 = transport c" "hooks c2 = hooks c"
      "isConnectionTerminated c2 = isConnectionTerminated c"
      by (simp_all add: c2_def disconnect_after_hook_fields disconnect_frame d1 c1)
    define d2 where "d2 = snd (disconnect_calls xs2 c2)"
    note d2 = disconnect_calls_fields[OF c2(2), of xs2, folded d2_def]
    have calls2: "disconnect_calls xs2 c2 = (replicate (length xs2) (Returns (Some p)), d2)"
      using d2(1) by (simp add: d2_def prod_eq_iff)
    define c3 where "c3 = snd (disconnect_after_transport p rt d2)"
    have c3: "disconnectPromise c3 = Some p"
      "effects c3 =
         effects d2
         @ (case rt of
              Rejects e \<Rightarrow> []
            | Fulfils \<Rightarrow>
                [TransportEmit ''disconnected'']
                @ (if onceDisconnected (transport c) \<and> \<not> isConnectionTerminated c
                   then [Emit ''disconnected'',
                         PendingCancel (DisconnectedError (thost (transport c)) None)]
                        @ (if beforeDisconnectFn (hooks c) then [CallBeforeDisconnectFn] else [])
                   else [])
                @ [Emit ''disconnected'', LogStats ''ConnectionToCore.Disconnected''])"
      by (simp_all add: c3_def disconnect_frame d2 c2 disconnect_after_transport_fields
          disconnect_teardown_end_effects split: settle.splits)
    note d3 = disconnect_calls_fields(1-3)[OF c3(1), of xs3]
    show ?thesis
      using Fulfils enter calls1 hook calls2 d3 c3 c2(1) d2(2) d1(2) c1(1)
      by (simp add: disconnect_concurrent_def p_def[symmetric] split_beta c3_def[symmetric]
          replicate_add[symmetric] add.assoc Let_def)
  qed
qed

text \<open>
  Claim C7, as the code has it. A first \<^verbatim>\<open>disconnect\<close> call (no disconnect promise
  yet) creates the promise \<open>p\<close>; every further call, whether it is made while the first
  is suspended at the hook, while it is suspended at the transport, or after it has
  finished, returns \<open>p\<close> and adds no effect: the teardown runs once. The effects of all
  the calls together are, in order: the mass cancellation of the pending table; the call
  of \<^verbatim>\<open>beforeDisconnectFn\<close> when the hook is set; when the hook fulfilled, the call
  of the transport's disconnect when the transport has the operation; when that
  fulfilled as well, the \<^verbatim>\<open>disconnected\<close> emission on the transport, then, when the
  once-only listener is still registered and the latch \<^verbatim>\<open>isConnectionTerminated\<close> is
  not set, the effects of \<^verbatim>\<open>onConnectionTerminated\<close> run in place (a
  \<^verbatim>\<open>disconnected\<close> emission of the controller, a second mass cancellation and a second
  call of the hook), then the \<^verbatim>\<open>disconnected\<close> emission of the controller of line 133.
\<close>

theorem disconnect_idempotent:
  assumes "disconnectPromise c = None"
  shows "let p = length (promises c);
             gone = DisconnectedError (thost (transport c)) None;
             hook = (if beforeDisconnectFn (hooks c) then [CallBeforeDisconnectFn] else []);
             (res, rs, c') = disconnect_concurrent fatalError now rh rt xs1 xs2 xs3 c
         in rs = replicate (length xs1 + length xs2 + length xs3) (Returns (Some p))
            \<and> disconnectPromise c' = Some p
            \<and> effects c' =
                effects c
                @ [LogStats ''ConnectionToCore.Disconnecting'', PendingCancel gone]
                @ hook
                @ (case rh of
                     Rejects e \<Rightarrow> []
                   | Fulfils \<Rightarrow>
                       (if hasDisconnect (transport c) then [TransportDisconnect] else [])
                       @ (case rt of
                            Rejects e \<Rightarrow> []
                          | Fulfils \<Rightarrow>
                              [TransportEmit ''disconnected'']
                              @ (if onceDisconnected (transport c) \<and> \<not> isConnectionTerminated c
                                 then [Emit ''disconnected'', PendingCancel gone] @ hook
                                 else [])
                              @ [Emit ''disconnected'',
                                 LogStats ''ConnectionToCore.Disconnected'']))"
  using assms by (rule disconnect_concurrent_effects)

theorem disconnect_idempotent_witness:
  "disconnectPromise fresh_with_hooks = None \<and>
   fst (snd (disconnect_concurrent None 2 Fulfils Fulfils [(None, 3)] []
               [(Some example_error, 4)] fresh_with_hooks)) =
     [Returns (Some 0), Returns (Some 0)] \<and>
   effects (snd (snd (disconnect_concurrent None 2 Fulfils Fulfils [(None, 3)] []
                        [(Some example_error, 4)] fresh_with_hooks))) =
     [LogStats ''ConnectionToCore.Disconnecting'',
      PendingCancel (DisconnectedError ''core.example:1818'' None),
      CallBeforeDisconnectFn, TransportDisconnect,
      TransportEmit ''disconnected'',
      Emit ''disconnected'', PendingCancel (DisconnectedError ''core.example:1818'' None),
      CallBeforeDisconnectFn,
      Emit ''disconnected'', LogStats ''ConnectionToCore.Disconnected''] \<and>
   disconnectPromise example_terminated = None \<and>
   effects (snd (snd (disconnect_concurrent None 2 Fulfils Fulfils [(None, 3)] []
                        [(Some example_error, 4)] example_terminated))) =
     effects example_terminated @
     [LogStats ''ConnectionToCore.Disconnecting'',
      PendingCancel (DisconnectedError ''core.example:1818'' None),
      CallBeforeDisconnectFn, TransportDisconnect,
      TransportEmit ''disconnected'',
      Emit ''disconnected'', LogStats ''ConnectionToCore.Disconnected'']"
proof -
  have h: "disconnectPromise fresh_with_hooks = None"
    by (simp add: fresh_with_hooks_fields)
  have h': "disconnectPromise example_terminated = None"
    by (simp add: example_terminated_fields)
  have a: "fst (snd (disconnect_concurrent None 2 Fulfils Fulfils [(None, 3)] []
               [(Some example_error, 4)] fresh_with_hooks)) =
     [Returns (Some 0), Returns (Some 0)] \<and>
   effects (snd (snd (disconnect_concurrent None 2 Fulfils Fulfils [(None, 3)] []
                        [(Some example_error, 4)] fresh_with_hooks))) =
     [LogStats ''ConnectionToCore.Disconnecting'',
      PendingCancel (DisconnectedError ''core.example:1818'' None),
      CallBeforeDisconnectFn, TransportDisconnect,
      TransportEmit ''disconnected'',
      Emit ''disconnected'', PendingCancel (DisconnectedError ''core.example:1818'' None),
      CallBeforeDisconnectFn,
      Emit ''disconnected'', LogStats ''ConnectionToCore.Disconnected'']"
    using disconnect_idempotent[OF h, of None 2 Fulfils Fulfils "[(None, 3)]" "[]"
        "[(Some example_error, 4)]"]
    by (simp add: Let_def split_beta fresh_with_hooks_fields fresh_with_hooks_more)
  have b: "effects (snd (snd (disconnect_concurrent None 2 Fulfils Fulfils [(None, 3)] []
                        [(Some example_error, 4)] example_terminated))) =
     effects example_terminated @
     [LogStats ''ConnectionToCore.Disconnecting'',
      PendingCancel (DisconnectedError ''core.example:1818'' None),
      CallBeforeDisconnectFn, TransportDisconnect,
      TransportEmit ''disconnected'',
      Emit ''disconnected'', LogStats ''ConnectionToCore.Disconnected'']"
    using disconnect_idempotent[OF h', of None 2 Fulfils Fulfils "[(None, 3)]" "[]"
        "[(Some example_error, 4)]"]
    by (simp add: Let_def split_beta example_terminated_fields(2,4-8))
  show ?thesis using a b h h' by simp
qed

text \<open>
  Claim C7 as stated fails. On a controller whose transport has not been seen to
  terminate and with every step fulfilling, three \<^verbatim>\<open>disconnect\<close> calls produce two
  mass cancellations, two calls of \<^verbatim>\<open>beforeDisconnectFn\<close> and two \<^verbatim>\<open>disconnected\<close>
  emissions of the controller (and one call of the transport's disconnect): line 132
  runs \<^verbatim>\<open>onConnectionTerminated\<close> in place. When \<^verbatim>\<open>beforeDisconnectFn\<close> rejects, the
  three calls produce no call of the transport's disconnect and no \<^verbatim>\<open>disconnected\<close>
  emission of the controller.
\<close>

theorem disconnect_counts_counterexample:
  "disconnectPromise fresh_with_hooks = None \<and>
   fst (snd (disconnect_concurrent None 2 Fulfils Fulfils [(None, 3)] [] [(None, 4)]
               fresh_with_hooks)) =
     [Returns (Some 0), Returns (Some 0)] \<and>
   count_list (effects (snd (snd (disconnect_concurrent None 2 Fulfils Fulfils
                                   [(None, 3)] [] [(None, 4)] fresh_with_hooks))))
     (PendingCancel (DisconnectedError ''core.example:1818'' None)) = 2 \<and>
   count_list (effects (snd (snd (disconnect_concurrent None 2 Fulfils Fulfils
                                   [(None, 3)] [] [(None, 4)] fresh_with_hooks))))
     CallBeforeDisconnectFn = 2 \<and>
   count_list (effects (snd (snd (disconnect_concurrent None 2 Fulfils Fulfils
                                   [(None, 3)] [] [(None, 4)] fresh_with_hooks))))
     (Emit ''disconnected'') = 2 \<and>
   count_list (effects (snd (snd (disconnect_concurrent None 2 Fulfils Fulfils
                                   [(None, 3)] [] [(None, 4)] fresh_with_hooks))))
     TransportDisconnect = 1 \<and>
   count_list (effects (snd (snd (disconnect_concurrent None 2 (Rejects example_error) Fulfils
                                   [(None, 3)] [] [(None, 4)] fresh_with_hooks))))
     TransportDisconnect = 0 \<and>
   count_list (effects (snd (snd (disconnect_concurrent None 2 (Rejects example_error) Fulfils
                                   [(None, 3)] [] [(None, 4)] fresh_with_hooks))))
     (Emit ''disconnected'') = 0"
proof -
  have h: "disconnectPromise fresh_with_hooks = None"
    by (simp add: fresh_with_hooks_fields)
  have a: "fst (snd (disconnect_concurrent None 2 Fulfils Fulfils [(None, 3)] [] [(None, 4)]
               fresh_with_hooks)) =
     [Returns (Some 0), Returns (Some 0)] \<and>
   effects (snd (snd (disconnect_concurrent None 2 Fulfils Fulfils [(None, 3)] []
                        [(None, 4)] fresh_with_hooks))) =
     [LogStats ''ConnectionToCore.Disconnecting'',
      PendingCancel (DisconnectedError ''core.example:1818'' None),
      CallBeforeDisconnectFn, TransportDisconnect,
      TransportEmit ''disconnected'',
      Emit ''disconnected'', PendingCancel (DisconnectedError ''core.example:1818'' None),
      CallBeforeDisconnectFn,
      Emit ''disconnected'', LogStats ''ConnectionToCore.Disconnected'']"
    using disconnect_concurrent_effects[OF h, of None 2 Fulfils Fulfils "[(None, 3)]" "[]"
        "[(None, 4)]"]
    by (simp add: Let_def split_beta fresh_with_hooks_fields fresh_with_hooks_more)
  have b: "effects (snd (snd (disconnect_concurrent None 2 (Rejects example_error) Fulfils
                        [(None, 3)] [] [(None, 4)] fresh_with_hooks))) =
     [LogStats ''ConnectionToCore.Disconnecting'',
      PendingCancel (DisconnectedError ''core.example:1818'' None),
      CallBeforeDisconnectFn]"
    using disconnect_concurrent_effects[OF h, of None 2 "Rejects example_error" Fulfils
        "[(None, 3)]" "[]" "[(None, 4)]"]
    by (simp add: Let_def split_beta fresh_with_hooks_fields fresh_with_hooks_more)
  show ?thesis
    using h a b by simp
qed



text \<open>
  Claim C9. A \<^verbatim>\<open>disconnect(fatalError)\<close> entered while a disconnect promise exists
  returns that promise; it overwrites \<^verbatim>\<open>disconnectStartTime\<close> and
  \<^verbatim>\<open>disconnectError\<close> and leaves every other part of the state as it was.
\<close>

theorem disconnect_reentrant_frame:
  assumes "disconnectPromise c = Some p"
  shows "disconnect_enter fatalError now c =
           (Returns (Some p), c\<lparr> disconnectStartTime := Some now, disconnectError := fatalError \<rparr>)"
  using assms by (simp add: disconnect_enter_def)

theorem disconnect_reentrant_frame_witness:
  "disconnectPromise (fresh\<lparr> disconnectPromise := Some 0 \<rparr>) = Some 0 \<and>
   disconnect_enter (Some example_error) 9 (fresh\<lparr> disconnectPromise := Some 0 \<rparr>) =
     (Returns (Some 0),
      fresh\<lparr> disconnectPromise := Some 0, disconnectStartTime := Some 9,
             disconnectError := Some example_error \<rparr>)"
  using disconnect_reentrant_frame[of "fresh\<lparr> disconnectPromise := Some 0 \<rparr>" 0 "Some example_error" 9]
  by simp

end
